theory Spec2Isabelle
  imports Complex_Main "HOL-Library.Sublist"
begin

section \<open>core/state.py: the outage state machine\<close>

text \<open>
  \<^verbatim>\<open>class State(Enum)\<close> has the two members \<open>UP\<close> and \<open>DOWN\<close>. An \<open>OutageState\<close> object
  holds the field \<open>_state\<close> (written \<open>cur_state\<close> here, since an Isabelle name cannot start with
  an underscore) and an \<open>asyncio.Lock\<close>. The lock only serialises the two coroutines; the calls
  modelled here are sequential, so each coroutine is a function from the object before the
  call to the returned pair and the object after the call.
\<close>

datatype State = UP | DOWN

record OutageState =
  cur_state :: State

definition OutageState_init :: OutageState where
  "OutageState_init = \<lparr>cur_state = UP\<rparr>"

definition record_success :: "OutageState \<Rightarrow> (State \<times> bool) \<times> OutageState" where
  "record_success self =
     (let prev = cur_state self in
      if prev = DOWN then ((DOWN, True), self\<lparr>cur_state := UP\<rparr>)
      else ((prev, False), self\<lparr>cur_state := UP\<rparr>))"

definition record_failure :: "OutageState \<Rightarrow> (State \<times> bool) \<times> OutageState" where
  "record_failure self =
     (let prev = cur_state self in
      if prev = UP then ((UP, True), self\<lparr>cur_state := DOWN\<rparr>)
      else ((DOWN, False), self\<lparr>cur_state := DOWN\<rparr>))"

definition get_state_sync :: "OutageState \<Rightarrow> State" where
  "get_state_sync self = cur_state self"

text \<open>
  A finite sequence of calls on one object: the returned pairs in call order, and the object
  after the last call.
\<close>

datatype call = RecordFailure | RecordSuccess

fun do_call :: "call \<Rightarrow> OutageState \<Rightarrow> (State \<times> bool) \<times> OutageState" where
  "do_call RecordFailure self = record_failure self"
| "do_call RecordSuccess self = record_success self"

fun run_calls :: "OutageState \<Rightarrow> call list \<Rightarrow> (State \<times> bool) list \<times> OutageState" where
  "run_calls self [] = ([], self)"
| "run_calls self (c # cs) =
     (case do_call c self of (r, self') \<Rightarrow>
        (case run_calls self' cs of (rs, self'') \<Rightarrow> (r # rs, self'')))"

section \<open>Python values used by core/ping.py and core/monitor.py\<close>

subsection \<open>Text\<close>

text \<open>
  A Python \<open>str\<close> is a \<open>string\<close>; a \<open>char\<close> stands for the code point with the same number, so
  the model covers text whose code points are below 256 (ASCII and Latin-1, which holds the
  output of \<open>ping\<close>). The character classes below are those of Python's \<open>re\<close> on \<open>str\<close>
  patterns, cut to that range: \<open>\d\<close> is \<open>0\<close> to \<open>9\<close>, and \<open>\s\<close> is the code points 9 to 13,
  28 to 32, 133 and 160.
\<close>

definition is_digit :: "char \<Rightarrow> bool" where
  "is_digit c = (c \<in> set ''0123456789'')"

definition is_space :: "char \<Rightarrow> bool" where
  "is_space c =
     (c \<in> set [CHR 0x09, CHR 0x0A, CHR 0x0B, CHR 0x0C, CHR 0x0D, CHR 0x1C, CHR 0x1D, CHR 0x1E,
                CHR 0x1F, CHR 0x20, CHR 0x85, CHR 0xA0])"

text \<open>
  \<open>str.lower()\<close> and \<open>str.upper()\<close>, one character at a time. Below 256 the upper-case letters
  are 65 to 90 and 192 to 222 without 215, each 32 below its lower-case form. \<open>upper()\<close> turns
  the sharp s (223) into \<open>SS\<close>; the upper-case forms of 181 and 255 lie above 255 and cannot be
  written here, so these two characters stay as they are (neither form is an ASCII letter).
\<close>

definition lower_char :: "char \<Rightarrow> char" where
  "lower_char c =
     (let n = (of_char c :: nat) in
      if (65 \<le> n \<and> n \<le> 90) \<or> (192 \<le> n \<and> n \<le> 222 \<and> n \<noteq> 215) then char_of (n + 32) else c)"

definition upper_char :: "char \<Rightarrow> string" where
  "upper_char c =
     (let n = (of_char c :: nat) in
      if (97 \<le> n \<and> n \<le> 122) \<or> (224 \<le> n \<and> n \<le> 254 \<and> n \<noteq> 247) then [char_of (n - 32)]
      else if n = 223 then ''SS'' else [c])"

definition lower :: "string \<Rightarrow> string" where
  "lower s = map lower_char s"

definition upper :: "string \<Rightarrow> string" where
  "upper s = concat (map upper_char s)"

text \<open>\<open>needle in haystack\<close> on two strings: some position of the haystack starts with the needle.\<close>

fun starts_with :: "string \<Rightarrow> string \<Rightarrow> bool" where
  "starts_with [] s = True"
| "starts_with (x # xs) [] = False"
| "starts_with (x # xs) (c # cs) = (x = c \<and> starts_with xs cs)"

fun py_in :: "string \<Rightarrow> string \<Rightarrow> bool" where
  "py_in needle [] = starts_with needle []"
| "py_in needle (c # cs) = (starts_with needle (c # cs) \<or> py_in needle cs)"

text \<open>\<open>str(n)\<close> of an integer: decimal digits, with a minus sign below zero.\<close>

definition digit_char :: "nat \<Rightarrow> char" where
  "digit_char d = ''0123456789'' ! d"

fun str_nat :: "nat \<Rightarrow> string" where
  "str_nat n = (if n < 10 then [digit_char n] else str_nat (n div 10) @ [digit_char (n mod 10)])"

declare str_nat.simps [simp del]

definition str_int :: "int \<Rightarrow> string" where
  "str_int i = (if i < 0 then CHR ''-'' # str_nat (nat (- i)) else str_nat (nat i))"

subsection \<open>Exceptions\<close>

text \<open>
  An exception is told apart the way the \<open>except\<close> clauses of \<open>run_ping\<close> tell it apart:
  \<^item> an instance of \<open>asyncio.TimeoutError\<close>, which \<open>asyncio.wait_for\<close> raises when its bound
    expires;
  \<^item> the builtin \<open>TimeoutError\<close>, which an \<open>OSError\<close> with the error number \<open>ETIMEDOUT\<close> is;
    from Python 3.11 on \<open>asyncio.TimeoutError\<close> is this very class, before that the two classes
    are unrelated;
  \<^item> any other instance of \<open>Exception\<close>, with the text of its \<open>returncode\<close> attribute when it
    has one, and the name of its class;
  \<^item> a \<open>BaseException\<close> that is no \<open>Exception\<close> (\<open>asyncio.CancelledError\<close> when the task is
    cancelled, \<open>KeyboardInterrupt\<close>, \<open>SystemExit\<close>), with the name of its class.
\<close>

datatype py_exc =
    Asyncio_TimeoutError
  | Builtin_TimeoutError
  | Other_Exception "string option" string
  | Not_An_Exception string

definition ValueError :: py_exc where
  "ValueError = Other_Exception None ''ValueError''"

definition OverflowError :: py_exc where
  "OverflowError = Other_Exception None ''OverflowError''"

subsection \<open>The Python the program runs on\<close>

text \<open>
  The value of a Python \<open>float\<close> is not computed here. The type of floats is a parameter \<open>'f\<close>,
  and the float operations the code uses are fields of a record that every function working
  on floats takes as its first argument:
  \<^item> \<open>from_decimal q\<close>: the float nearest to the number \<open>q\<close>; it is what \<open>float(text)\<close> makes of a
    decimal numeral of value \<open>q\<close>, what a literal of the program text stands for (\<open>12.3\<close> is
    \<open>from_decimal (123 / 10)\<close>), and what an integer \<open>q\<close> in the range of the floats becomes in
    arithmetic with a float;
  \<^item> \<open>float_add x y\<close> and \<open>float_div x y\<close>: \<open>x + y\<close> and \<open>x / y\<close> on floats;
  \<^item> \<open>round_1 x\<close>: \<open>round(x, 1)\<close>;
  \<^item> \<open>format_0f x\<close>: \<open>format(x, ".0f")\<close>;
  \<^item> \<open>falsy x\<close>: \<open>x\<close> counts as false (it is zero).
  The record also holds the two settings of the interpreter that the code depends on:
  \<^item> \<open>int_max_str_digits\<close>: \<open>sys.get_int_max_str_digits()\<close>, the number of digits above which
    \<open>str\<close> refuses an integer; it is 4300 unless changed, and 0 where there is no limit;
  \<^item> \<open>timeout_error_is_builtin\<close>: whether \<open>asyncio.TimeoutError\<close> is the builtin \<open>TimeoutError\<close>
    (Python 3.11 and later).
  Every theorem holds for every choice of these fields.
\<close>

record 'f runtime =
  from_decimal :: "rat \<Rightarrow> 'f"
  float_add :: "'f \<Rightarrow> 'f \<Rightarrow> 'f"
  float_div :: "'f \<Rightarrow> 'f \<Rightarrow> 'f"
  round_1 :: "'f \<Rightarrow> 'f"
  format_0f :: "'f \<Rightarrow> string"
  falsy :: "'f \<Rightarrow> bool"
  int_max_str_digits :: nat
  timeout_error_is_builtin :: bool

text \<open>
  \<open>str(n)\<close> as the interpreter does it: \<open>ValueError\<close> when the integer has more digits than
  the limit allows. (\<open>str_int\<close> above is the text without the check; the code applies it
  unchecked only to the return code of a process, a machine integer.)
\<close>

definition py_str :: "'f runtime \<Rightarrow> int \<Rightarrow> py_exc + string" where
  "py_str py n =
     (if 0 < int_max_str_digits py \<and> int_max_str_digits py < length (str_nat (nat \<bar>n\<bar>))
      then Inl ValueError else Inr (str_int n))"

text \<open>
  An integer that meets a float in \<open>+\<close> or \<open>/\<close> is first made a float: \<open>OverflowError\<close> when
  rounding it to the nearest float would leave the range of the floats, which is so from
  \<open>2 ^ 1024 - 2 ^ 970\<close> on in either direction.
\<close>

definition float_of_int :: "'f runtime \<Rightarrow> int \<Rightarrow> py_exc + 'f" where
  "float_of_int py n =
     (if 2 ^ 1024 - 2 ^ 970 \<le> \<bar>n\<bar> then Inl OverflowError
      else Inr (from_decimal py (of_int n)))"

text \<open>
  \<open>float(text)\<close> for a text of digits and dots, which is all the two patterns of
  \<open>_parse_latency\<close> capture: it raises \<open>ValueError\<close> (here \<open>None\<close>) unless the text has a digit
  and at most one dot, and otherwise reads the numeral. Signs, exponents and the other forms
  \<open>float\<close> accepts never reach it.
\<close>

definition digit_value :: "char \<Rightarrow> nat" where
  "digit_value c = of_char c - 48"

definition nat_of_digits :: "string \<Rightarrow> nat" where
  "nat_of_digits s = foldl (\<lambda>n c. 10 * n + digit_value c) 0 s"

definition decimal_value :: "string \<Rightarrow> rat" where
  "decimal_value s =
     (let whole = takeWhile (\<lambda>c. c \<noteq> CHR ''.'') s;
          frac = drop 1 (dropWhile (\<lambda>c. c \<noteq> CHR ''.'') s)
      in of_nat (nat_of_digits whole) + of_nat (nat_of_digits frac) / 10 ^ length frac)"

definition py_float :: "'f runtime \<Rightarrow> string \<Rightarrow> 'f option" where
  "py_float py s =
     (if list_all (\<lambda>c. is_digit c \<or> c = CHR ''.'') s \<and> list_ex is_digit s
         \<and> length (filter (\<lambda>c. c = CHR ''.'') s) \<le> 1
      then Some (from_decimal py (decimal_value s)) else None)"

text \<open>
  \<open>random.randint(a, b)\<close>: \<open>ValueError\<close> when the range is empty, and otherwise a number of
  the range, which the third argument picks.
\<close>

definition randint :: "int \<Rightarrow> int \<Rightarrow> nat \<Rightarrow> py_exc + int" where
  "randint a b pick =
     (if b < a then Inl ValueError else Inr (a + int (pick mod nat (b - a + 1))))"

subsection \<open>Regular expressions\<close>

text \<open>
  \<open>re.search\<close> for the constructs the two patterns of \<open>_parse_latency\<close> are written with: one
  character or character class (\<open>One\<close>), \<open>?\<close> (\<open>Opt\<close>), \<open>*\<close> (\<open>Star\<close>) and the capturing group
  \<open>([...]+)\<close> (\<open>Group_plus\<close>). The matcher is the backtracking one of \<open>re\<close>: every repetition
  takes as many characters as it can and gives them back one at a time while the rest of the
  pattern fails. \<open>In_group a acc\<close> is the group after its first character, \<open>acc\<close> being what it
  has captured so far; it is a state of the matcher, not a construct of a pattern. The result
  of a match is the text of group 1.
\<close>

datatype cls = Digit_or_dot | Whitespace | Eq_or_colon

datatype atom = Lit char | Class cls

datatype item = One atom | Opt atom | Star atom | Group_plus atom | In_group atom string

fun atom_ok :: "bool \<Rightarrow> atom \<Rightarrow> char \<Rightarrow> bool" where
  "atom_ok ignorecase (Lit x) c = (if ignorecase then lower_char c = lower_char x else c = x)"
| "atom_ok ignorecase (Class Digit_or_dot) c = (is_digit c \<or> c = CHR ''.'')"
| "atom_ok ignorecase (Class Whitespace) c = is_space c"
| "atom_ok ignorecase (Class Eq_or_colon) c = (c = CHR ''='' \<or> c = CHR '':'')"

fun match_here :: "bool \<Rightarrow> item list \<Rightarrow> string \<Rightarrow> string \<Rightarrow> string option" where
  "match_here ic [] s g = Some g"
| "match_here ic (One a # r) [] g = None"
| "match_here ic (One a # r) (c # cs) g = (if atom_ok ic a c then match_here ic r cs g else None)"
| "match_here ic (Opt a # r) [] g = match_here ic r [] g"
| "match_here ic (Opt a # r) (c # cs) g =
     (if atom_ok ic a c then
        (case match_here ic r cs g of Some m \<Rightarrow> Some m | None \<Rightarrow> match_here ic r (c # cs) g)
      else match_here ic r (c # cs) g)"
| "match_here ic (Star a # r) [] g = match_here ic r [] g"
| "match_here ic (Star a # r) (c # cs) g =
     (if atom_ok ic a c then
        (case match_here ic (Star a # r) cs g of Some m \<Rightarrow> Some m
         | None \<Rightarrow> match_here ic r (c # cs) g)
      else match_here ic r (c # cs) g)"
| "match_here ic (Group_plus a # r) [] g = None"
| "match_here ic (Group_plus a # r) (c # cs) g =
     (if atom_ok ic a c then match_here ic (In_group a [c] # r) cs g else None)"
| "match_here ic (In_group a acc # r) [] g = match_here ic r [] acc"
| "match_here ic (In_group a acc # r) (c # cs) g =
     (if atom_ok ic a c then
        (case match_here ic (In_group a (acc @ [c]) # r) cs g of Some m \<Rightarrow> Some m
         | None \<Rightarrow> match_here ic r (c # cs) acc)
      else match_here ic r (c # cs) acc)"

fun re_search :: "bool \<Rightarrow> item list \<Rightarrow> string \<Rightarrow> string option" where
  "re_search ic rx [] = match_here ic rx [] []"
| "re_search ic rx (c # cs) =
     (case match_here ic rx (c # cs) [] of Some g \<Rightarrow> Some g | None \<Rightarrow> re_search ic rx cs)"

section \<open>core/ping.py\<close>

text \<open>The pattern \<^verbatim>\<open>time[=:]?\s*([\d.]+)\s*ms\<close>, searched with \<open>re.I\<close>.\<close>

definition rx_time :: "item list" where
  "rx_time =
     [One (Lit CHR ''t''), One (Lit CHR ''i''), One (Lit CHR ''m''), One (Lit CHR ''e''),
      Opt (Class Eq_or_colon), Star (Class Whitespace), Group_plus (Class Digit_or_dot),
      Star (Class Whitespace), One (Lit CHR ''m''), One (Lit CHR ''s'')]"

text \<open>The pattern \<^verbatim>\<open>([\d.]+)\s*ms\<close>, searched without flags.\<close>

definition rx_ms :: "item list" where
  "rx_ms =
     [Group_plus (Class Digit_or_dot), Star (Class Whitespace),
      One (Lit CHR ''m''), One (Lit CHR ''s'')]"

text \<open>
  \<open>_parse_latency\<close> (the leading underscore of a Python name is dropped throughout): the first
  search, then the second when the first finds nothing or \<open>float\<close> raises \<open>ValueError\<close> on
  what it found, then \<open>None\<close>.
\<close>

definition parse_latency :: "'f runtime \<Rightarrow> string \<Rightarrow> 'f option" where
  "parse_latency py output =
     (let second =
        (case re_search False rx_ms output of
           Some g \<Rightarrow> (case py_float py g of Some v \<Rightarrow> Some v | None \<Rightarrow> None)
         | None \<Rightarrow> None)
      in case re_search True rx_time output of
           Some g \<Rightarrow> (case py_float py g of Some v \<Rightarrow> Some v | None \<Rightarrow> second)
         | None \<Rightarrow> second)"

record 'f PingResult =
  success :: bool
  latency_ms :: "'f option"
  reason :: string

definition timeout_seconds :: "int \<Rightarrow> int" where
  "timeout_seconds timeout_ms = max 1 ((timeout_ms + 999) div 1000)"

text \<open>
  \<open>_interpret\<close> is written \<open>interpret_ping\<close>, since \<open>interpret\<close> is a command of Isabelle. Python's
  \<open>//\<close> on integers rounds towards minus infinity, as \<open>div\<close> does on \<open>int\<close>.
\<close>

definition interpret_ping :: "'f runtime \<Rightarrow> int \<Rightarrow> string \<Rightarrow> 'f \<Rightarrow> int \<Rightarrow> 'f PingResult" where
  "interpret_ping py returncode output elapsed_ms timeout_ms =
     (if returncode = 0 then
        (let lat = parse_latency py output in
         \<lparr>success = True,
          latency_ms = Some (case lat of Some v \<Rightarrow> v | None \<Rightarrow> round_1 py elapsed_ms),
          reason = ''OK''\<rparr>)
      else
        (let output_lower = lower output;
             reason =
               (if py_in ''timed out'' output_lower \<or> py_in ''timeout'' output_lower
                   \<or> py_in ''request timed out'' output_lower then ''TIMEOUT''
                else if py_in ''unreachable'' output_lower then ''UNREACHABLE''
                else ''ERROR:'' @ str_int returncode)
         in \<lparr>success = False, latency_ms = None, reason = reason\<rparr>))"

text \<open>
  The lines of \<open>run_ping\<close> before its \<open>try\<close>: the command line and the bound \<open>timeout_s\<close> handed
  to \<open>asyncio.wait_for\<close>, by platform (\<open>sys.platform == "win32"\<close> or not). An exception raised
  here is outside the \<open>try\<close> and reaches the caller: \<open>ValueError\<close> from \<open>str\<close>, then
  \<open>OverflowError\<close> from the integer that is divided by \<open>1000.0\<close> or added to \<open>2.0\<close>.
\<close>

datatype platform = Win32 | Not_win32

definition ping_command ::
  "'f runtime \<Rightarrow> platform \<Rightarrow> string \<Rightarrow> int \<Rightarrow> py_exc + (string list \<times> 'f)" where
  "ping_command py plat host timeout_ms =
     (case plat of
        Win32 \<Rightarrow>
          (case py_str py timeout_ms of
             Inl e \<Rightarrow> Inl e
           | Inr text \<Rightarrow>
               (case float_of_int py timeout_ms of
                  Inl e \<Rightarrow> Inl e
                | Inr x \<Rightarrow>
                    Inr ([''ping'', ''-n'', ''1'', ''-w'', text, host],
                         float_add py (float_div py x (from_decimal py 1000))
                           (from_decimal py 2))))
      | Not_win32 \<Rightarrow>
          (let timeout_s = timeout_seconds timeout_ms in
           case py_str py timeout_s of
             Inl e \<Rightarrow> Inl e
           | Inr text \<Rightarrow>
               (case float_of_int py timeout_s of
                  Inl e \<Rightarrow> Inl e
                | Inr x \<Rightarrow>
                    Inr ([''ping'', ''-c'', ''1'', ''-W'', text, host],
                         float_add py x (from_decimal py 2)))))"

text \<open>
  What the \<open>try\<close> block of \<open>run_ping\<close> can meet. The subprocess either cannot be created
  (\<open>create_subprocess_exec\<close> raises), or \<open>wait_for(proc.communicate(), timeout_s)\<close> raises
  (\<open>asyncio.TimeoutError\<close> when the bound expires), or it completes with \<open>proc.returncode\<close>, the
  decoded standard output and the measured \<open>elapsed_ms\<close>. The process environment is a
  function from the command line and the bound to one of these.
\<close>

datatype 'f attempt =
    Spawn_raises py_exc
  | Wait_raises py_exc
  | Completed "int option" string 'f

text \<open>The two \<open>except\<close> clauses, in their order.\<close>

definition on_exception :: "'f runtime \<Rightarrow> py_exc \<Rightarrow> py_exc + 'f PingResult" where
  "on_exception py e =
     (case e of
        Asyncio_TimeoutError \<Rightarrow> Inr \<lparr>success = False, latency_ms = None, reason = ''TIMEOUT''\<rparr>
      | Builtin_TimeoutError \<Rightarrow>
          (if timeout_error_is_builtin py
           then Inr \<lparr>success = False, latency_ms = None, reason = ''TIMEOUT''\<rparr>
           else Inr \<lparr>success = False, latency_ms = None, reason = ''ERROR:TimeoutError''\<rparr>)
      | Other_Exception returncode name \<Rightarrow>
          Inr \<lparr>success = False, latency_ms = None,
               reason = ''ERROR:'' @ (case returncode of Some text \<Rightarrow> text | None \<Rightarrow> name)\<rparr>
      | Not_An_Exception name \<Rightarrow> Inl (Not_An_Exception name))"

definition run_ping ::
  "'f runtime \<Rightarrow> platform \<Rightarrow> (string list \<Rightarrow> 'f \<Rightarrow> 'f attempt) \<Rightarrow> string \<Rightarrow> int
     \<Rightarrow> py_exc + 'f PingResult" where
  "run_ping py plat proc host timeout_ms =
     (case ping_command py plat host timeout_ms of
        Inl e \<Rightarrow> Inl e
      | Inr (cmd, timeout_s) \<Rightarrow>
          (case proc cmd timeout_s of
             Spawn_raises e \<Rightarrow> on_exception py e
           | Wait_raises e \<Rightarrow> on_exception py e
           | Completed returncode output elapsed_ms \<Rightarrow>
               Inr (interpret_ping py (case returncode of Some r \<Rightarrow> r | None \<Rightarrow> 0)
                      output elapsed_ms timeout_ms)))"

section \<open>core/monitor.py\<close>

text \<open>
  \<open>TargetConfig\<close> is the class of core/config.py; its field \<open>alias\<close> is written
  \<open>target_alias\<close>, since \<open>alias\<close> is a command of Isabelle. The fields of \<open>MonitorUpdate\<close> carry the
  prefix \<open>upd_\<close>, since two records cannot share a field name.

  Target objects are shared and changed in place: the target list of the monitor state, the
  scheduling loops and the table of the user interface hold the same objects. So a target
  object is known by its reference, the target list is a list of references, and the fields
  an object has at a given moment are read from the store of objects (\<open>objects\<close> below).

  Of \<open>MonitorState\<close> the semaphore and the two queues are left out: the update a cycle
  publishes is returned instead, and so is every call of \<open>notify.notify\<close> as its three
  arguments. Logging is left out. So are the entries \<open>ensure_structures\<close> makes when the
  properties \<open>sem\<close> and \<open>queue\<close> call it, a fresh \<open>OutageState\<close> for every alias of the target
  list that has none: \<open>run_one_target\<close> gives an alias without an entry a fresh one where it
  looks it up, so these entries change nothing that is read.
\<close>

type_synonym ref = nat

record TargetConfig =
  target_alias :: string
  host :: string
  interval :: int
  timeout :: int
  enabled :: bool

record MonitorUpdate =
  upd_alias :: string
  upd_host :: string
  upd_line :: string
  upd_success :: bool
  upd_detail :: string
  upd_display_mode :: string

definition detail_for_display :: "bool \<Rightarrow> string \<Rightarrow> string \<Rightarrow> string" where
  "detail_for_display ok detail mode =
     (if mode = ''codes'' then
        (if ok then ''200''
         else if py_in ''TIMEOUT'' (upper detail) then ''408''
         else ''503'')
      else detail)"

record MonitorState =
  targets :: "ref list"
  concurrency :: int
  jitter_ms :: "int \<times> int"
  display_mode :: string
  notifications_enabled :: bool
  sound_on_down :: bool
  outage_states :: "string \<rightharpoonup> OutageState"

type_synonym notify_call = "string \<times> string \<times> bool"

text \<open>
  \<open>run_one_target\<close>. The coroutine reads its target object at two moments: \<open>host\<close> and
  \<open>timeout\<close> when it calls \<open>run_ping\<close>, and \<open>alias\<close> and \<open>host\<close> again when \<open>run_ping\<close> has
  returned; the object may have been changed in between. So the function takes the fields of
  the object at the first moment (\<open>target0\<close>) and at the second (\<open>target\<close>), and \<open>state\<close> is the
  monitor state as the coroutine finds it when \<open>run_ping\<close> has returned. The result is the
  exception \<open>run_ping\<close> lets through, or the state after the cycle, the calls of
  \<open>notify.notify\<close> in order and the update put on the queue.
\<close>

definition run_one_target ::
  "'f runtime \<Rightarrow> platform \<Rightarrow> (string list \<Rightarrow> 'f \<Rightarrow> 'f attempt) \<Rightarrow> TargetConfig \<Rightarrow> TargetConfig
     \<Rightarrow> MonitorState \<Rightarrow> py_exc + (MonitorState \<times> notify_call list \<times> MonitorUpdate)" where
  "run_one_target py plat proc target0 target state =
     (case run_ping py plat proc (host target0) (timeout target0) of
        Inl e \<Rightarrow> Inl e
      | Inr result \<Rightarrow>
          (let ost = (case outage_states state (target_alias target) of
                        Some found \<Rightarrow> found | None \<Rightarrow> OutageState_init)
           in if success result then
                (case record_success ost of
                   ((prev, notify_reachable), ost') \<Rightarrow>
                     (let calls =
                            (if notify_reachable \<and> notifications_enabled state
                             then [(''Pingu'', target_alias target @ '' is reachable again.'', False)]
                             else []);
                          detail =
                            (case latency_ms result of
                               Some l \<Rightarrow> (if falsy py l then ''0'' else format_0f py l) @ ''ms''
                             | None \<Rightarrow> ''0'');
                          display_detail = detail_for_display True detail (display_mode state);
                          line = target_alias target @ '' - OK '' @ display_detail
                      in Inr (state\<lparr>outage_states := (outage_states state)(target_alias target \<mapsto> ost')\<rparr>,
                              calls,
                              \<lparr>upd_alias = target_alias target, upd_host = host target, upd_line = line,
                               upd_success = success result, upd_detail = display_detail,
                               upd_display_mode = display_mode state\<rparr>)))
              else
                (case record_failure ost of
                   ((prev, first_failure), ost') \<Rightarrow>
                     (let calls =
                            (if notifications_enabled state then
                               (if first_failure \<and> sound_on_down state
                                then [(''Pingu'',
                                       target_alias target @ '' is DOWN: '' @ reason result @ ''.'', True)]
                                else [(''Pingu'',
                                       target_alias target @ '' is DOWN: '' @ reason result @ ''.'', False)])
                             else []);
                          display_detail =
                            detail_for_display False (reason result) (display_mode state);
                          line = target_alias target @ '' - DOWN '' @ display_detail
                      in Inr (state\<lparr>outage_states := (outage_states state)(target_alias target \<mapsto> ost')\<rparr>,
                              calls,
                              \<lparr>upd_alias = target_alias target, upd_host = host target, upd_line = line,
                               upd_success = success result, upd_detail = display_detail,
                               upd_display_mode = display_mode state\<rparr>)))))"


text \<open>
  The jitter of a sleep: \<open>random.randint(state.jitter_ms[0], state.jitter_ms[1]) / 1000.0\<close>.
  \<open>randint\<close> raises \<open>ValueError\<close> on an empty range, and the division by a float raises
  \<open>OverflowError\<close> on an integer out of the range of the floats.
\<close>

definition draw_jitter :: "'f runtime \<Rightarrow> MonitorState \<Rightarrow> nat \<Rightarrow> py_exc + 'f" where
  "draw_jitter py state pick =
     (case randint (fst (jitter_ms state)) (snd (jitter_ms state)) pick of
        Inl e \<Rightarrow> Inl e
      | Inr n \<Rightarrow>
          (case float_of_int py n of
             Inl e \<Rightarrow> Inl e
           | Inr x \<Rightarrow> Inr (float_div py x (from_decimal py 1000))))"

text \<open>
  \<open>schedule_target\<close>. What the rest of the program can reach is a \<open>world\<close>: the fields of
  every target object, and the monitor state. The coroutine gives way to the rest of the
  program where it awaits: in its sleeps, where it waits for the semaphore, and while the probe
  runs.

  The loop has no exit of its own, so it is run over the cycles observed: one entry per pass
  through the loop body, holding
  \<^item> \<open>while_asleep\<close>: what the rest of the program has done to the world during the sleep
    before this pass (the jittered sleep at the start for the first pass);
  \<^item> \<open>while_waiting\<close>: what it has done while \<open>run_one_target\<close> waited for the semaphore;
  \<^item> \<open>process\<close>: the process environment of this pass's probe;
  \<^item> \<open>while_probing\<close>: what it has done while the probe ran;
  \<^item> \<open>pick\<close>: the choice \<open>random.randint\<close> makes for the sleep after the probe.
  The argument \<open>target\<close> is the object the loop was started with, \<open>first_pick\<close> the choice
  \<open>random.randint\<close> makes for the jitter at the start. The result says how the loop stands after
  these cycles: it returned, it let an exception through, or it is asleep before a further
  cycle; and it lists the probes made (host and timeout handed to \<open>run_ping\<close>), the calls of
  \<open>notify.notify\<close> and the updates published.
\<close>

record world =
  objects :: "ref \<Rightarrow> TargetConfig"
  monitor :: MonitorState

record 'f cycle =
  while_asleep :: "world \<Rightarrow> world"
  while_waiting :: "world \<Rightarrow> world"
  process :: "string list \<Rightarrow> 'f \<Rightarrow> 'f attempt"
  while_probing :: "world \<Rightarrow> world"
  pick :: nat

datatype loop_status = Returned | Raised py_exc | Sleeping

record loop_result =
  status :: loop_status
  final_world :: world
  probes :: "(string \<times> int) list"
  notifications :: "notify_call list"
  updates :: "MonitorUpdate list"

text \<open>
  \<open>next((t for t in state.targets if t.alias == target.alias), None)\<close>: the first object of
  the target list whose alias is, at this moment, the alias the loop's own object has at this
  moment.
\<close>

definition resolve :: "world \<Rightarrow> ref \<Rightarrow> ref option" where
  "resolve w target =
     find (\<lambda>t. target_alias (objects w t) = target_alias (objects w target))
       (targets (monitor w))"

text \<open>
  The \<open>while True\<close> loop, entered in the world \<open>w\<close> in which the sleep before it began.
  \<open>run_one_target\<close> reads the host and timeout of \<open>current\<close> when the semaphore is acquired, and
  its alias and host again when the probe is over; the interval of \<open>current\<close> and the jitter
  range are read after that, with no await in between.
\<close>

fun schedule_loop ::
  "'f runtime \<Rightarrow> platform \<Rightarrow> ref \<Rightarrow> world \<Rightarrow> 'f cycle list \<Rightarrow> loop_result" where
  "schedule_loop py plat target w [] =
     \<lparr>status = Sleeping, final_world = w, probes = [], notifications = [], updates = []\<rparr>"
| "schedule_loop py plat target w (c # later) =
     (let w1 = while_asleep c w in
      case resolve w1 target of
        None \<Rightarrow>
          \<lparr>status = Returned, final_world = w1, probes = [], notifications = [],
           updates = []\<rparr>
      | Some current \<Rightarrow>
          if \<not> enabled (objects w1 current) then
            \<lparr>status = Returned, final_world = w1, probes = [], notifications = [],
             updates = []\<rparr>
          else
            (let w2 = while_waiting c w1;
                 w3 = while_probing c w2;
                 probe = (host (objects w2 current), timeout (objects w2 current))
             in case run_one_target py plat (process c) (objects w2 current)
                       (objects w3 current) (monitor w3) of
                  Inl e \<Rightarrow>
                    \<lparr>status = Raised e, final_world = w3, probes = [probe],
                     notifications = [], updates = []\<rparr>
                | Inr (state', calls, update) \<Rightarrow>
                    (let w4 = w3\<lparr>monitor := state'\<rparr> in
                     case draw_jitter py state' (pick c) of
                       Inl e \<Rightarrow>
                         \<lparr>status = Raised e, final_world = w4, probes = [probe],
                          notifications = calls, updates = [update]\<rparr>
                     | Inr jitter \<Rightarrow>
                         (case float_of_int py (interval (objects w4 current)) of
                            Inl e \<Rightarrow>
                              \<lparr>status = Raised e, final_world = w4, probes = [probe],
                               notifications = calls, updates = [update]\<rparr>
                          | Inr seconds \<Rightarrow>
                              (let r = schedule_loop py plat target w4 later in
                               r\<lparr>probes := probe # probes r,
                                 notifications := calls @ notifications r,
                                 updates := update # updates r\<rparr>)))))"

definition schedule_target ::
  "'f runtime \<Rightarrow> platform \<Rightarrow> ref \<Rightarrow> world \<Rightarrow> nat \<Rightarrow> 'f cycle list \<Rightarrow> loop_result" where
  "schedule_target py plat target w first_pick cycles =
     (case draw_jitter py (monitor w) first_pick of
        Inl e \<Rightarrow>
          \<lparr>status = Raised e, final_world = w, probes = [], notifications = [],
           updates = []\<rparr>
      | Inr jitter \<Rightarrow> schedule_loop py plat target w cycles)"

section \<open>An instance of the runtime\<close>

text \<open>
  Theorems are evaluated on concrete inputs with this instance, in which a float is a rational
  number: a numeral is read exactly, sums and quotients are exact, and rounding goes to the
  nearest tenth or integer, a tie to the even neighbour, as \<open>round\<close> and \<open>format\<close> do. It is
  not the arithmetic of the doubles; it agrees with it wherever the doubles are exact, which
  is so on every input it is evaluated on below. The digit limit is the one of an
  interpreter that has not been configured, and \<open>asyncio.TimeoutError\<close> is the builtin
  \<open>TimeoutError\<close>, as from Python 3.11 on.
\<close>

definition half_even :: "rat \<Rightarrow> int" where
  "half_even q =
     (let below = \<lfloor>q\<rfloor>; part = q - of_int below
      in if part < 1 / 2 then below
         else if 1 / 2 < part then below + 1
         else if even below then below else below + 1)"

definition rat_floats :: "rat runtime" where
  "rat_floats =
     \<lparr>from_decimal = (\<lambda>q. q),
      float_add = (\<lambda>x y. x + y),
      float_div = (\<lambda>x y. x / y),
      round_1 = (\<lambda>x. of_int (half_even (x * 10)) / 10),
      format_0f = (\<lambda>x. if half_even x = 0 \<and> x < 0 then ''-0'' else str_int (half_even x)),
      falsy = (\<lambda>x. x = 0),
      int_max_str_digits = 4300,
      timeout_error_is_builtin = True\<rparr>"

text \<open>
  The same on an interpreter before Python 3.11, where \<open>asyncio.TimeoutError\<close> and the builtin
  \<open>TimeoutError\<close> are two classes.
\<close>

definition python_3_10 :: "rat runtime" where
  "python_3_10 = rat_floats\<lparr>timeout_error_is_builtin := False\<rparr>"

section \<open>The notification rules as the specification words them\<close>

text \<open>
  Written from the words of the specification, to be compared with \<open>run_one_target\<close>: the
  notifications its three rules call for in one cycle, each given by its play-sound flag.
  The arguments are whether the probe succeeded, the flag \<open>record_success\<close> returned, the flag
  \<open>record_failure\<close> returned, and the two settings.
\<close>

definition decision_rules :: "bool \<Rightarrow> bool \<Rightarrow> bool \<Rightarrow> bool \<Rightarrow> bool \<Rightarrow> bool list" where
  "decision_rules ok should_announce_recovery is_first_failure notify_on sound =
     (if ok \<and> should_announce_recovery \<and> notify_on then [False]
      else if \<not> ok \<and> notify_on \<and> is_first_failure \<and> sound then [True]
      else if \<not> ok \<and> notify_on \<and> \<not> is_first_failure then [False]
      else [])"

section \<open>A target and a world to evaluate on\<close>

text \<open>One target object, with the reference 0, which the target list holds.\<close>

definition example_target :: TargetConfig where
  "example_target =
     \<lparr>target_alias = ''gw'', host = ''10.0.0.1'', interval = 60, timeout = 1000,
      enabled = True\<rparr>"

definition example_state :: MonitorState where
  "example_state =
     \<lparr>targets = [0], concurrency = 5, jitter_ms = (0, 300),
      display_mode = ''latency'', notifications_enabled = True, sound_on_down = True,
      outage_states = Map.empty\<rparr>"

definition example_world :: world where
  "example_world = \<lparr>objects = (\<lambda>r. example_target), monitor = example_state\<rparr>"

text \<open>
  What the user interface does to a target object when a cell of the targets table is edited
  or the enabled box is toggled (gui/targets_tab.py): the field of the object is assigned in
  place.
\<close>

definition rename :: "ref \<Rightarrow> string \<Rightarrow> world \<Rightarrow> world" where
  "rename r a w = w\<lparr>objects := (objects w)(r := (objects w r)\<lparr>target_alias := a\<rparr>)\<rparr>"


definition quiet_cycle :: "(string list \<Rightarrow> 'f \<Rightarrow> 'f attempt) \<Rightarrow> 'f cycle" where
  "quiet_cycle proc =
     \<lparr>while_asleep = (\<lambda>w. w), while_waiting = (\<lambda>w. w), process = proc,
      while_probing = (\<lambda>w. w), pick = 0\<rparr>"

section \<open>A number followed by ms, as the specification words it\<close>

text \<open>
  Written from the words of the specification, to be compared with \<open>_parse_latency\<close>.
  \<^item> \<open>ms_follows\<close>: the text goes on, after any whitespace, with the letters \<open>ms\<close>; in either
    case when the flag is set, and in lower case only when it is not.
  \<^item> \<open>has_number_ms\<close>: the text holds a number followed by \<open>ms\<close>, which is to say that some digit
    or dot in it is followed by \<open>ms\<close> in this sense.
  \<^item> \<open>number_ms_here\<close>: the text starts with a number, a run of digits and dots, which is
    followed by \<open>ms\<close>.
  \<^item> \<open>has_time_number_ms\<close>: the text holds the keyword \<open>time\<close> with a latency, which is to say
    the word \<open>time\<close>, then \<open>=\<close> or \<open>:\<close> or neither, then any whitespace, then a number followed by
    \<open>ms\<close>, the letters in either case.
\<close>

definition digit_or_dot :: "char \<Rightarrow> bool" where
  "digit_or_dot c = (is_digit c \<or> c = CHR ''.'')"

definition ms_follows :: "bool \<Rightarrow> string \<Rightarrow> bool" where
  "ms_follows either_case s =
     starts_with ''ms''
       (if either_case then lower (dropWhile is_space s) else dropWhile is_space s)"

fun has_number_ms :: "bool \<Rightarrow> string \<Rightarrow> bool" where
  "has_number_ms either_case [] = False"
| "has_number_ms either_case (c # cs) =
     ((digit_or_dot c \<and> ms_follows either_case cs) \<or> has_number_ms either_case cs)"

definition number_ms_here :: "bool \<Rightarrow> string \<Rightarrow> bool" where
  "number_ms_here either_case s =
     (case s of
        [] \<Rightarrow> False
      | c # cs \<Rightarrow> digit_or_dot c \<and> ms_follows either_case (dropWhile digit_or_dot cs))"

definition skip_eq_or_colon :: "string \<Rightarrow> string" where
  "skip_eq_or_colon s =
     (case s of
        [] \<Rightarrow> []
      | c # cs \<Rightarrow> if c = CHR ''='' \<or> c = CHR '':'' then cs else c # cs)"

definition time_number_ms_here :: "string \<Rightarrow> bool" where
  "time_number_ms_here s =
     (lower (take 4 s) = ''time''
      \<and> number_ms_here True (dropWhile is_space (skip_eq_or_colon (drop 4 s))))"

fun has_time_number_ms :: "string \<Rightarrow> bool" where
  "has_time_number_ms [] = False"
| "has_time_number_ms (c # cs) = (time_number_ms_here (c # cs) \<or> has_time_number_ms cs)"
section \<open>Outage state machine: results\<close>

lemma run_calls_append:
  "run_calls self (cs @ ds) =
     (fst (run_calls self cs) @ fst (run_calls (snd (run_calls self cs)) ds),
      snd (run_calls (snd (run_calls self cs)) ds))"
  by (induction cs arbitrary: self) (auto split: prod.splits)

lemma record_success_UP:
  "cur_state self = UP \<Longrightarrow> record_success self = ((UP, False), self)"
  by (cases self) (simp add: record_success_def)

lemma run_calls_success_UP:
  "cur_state self = UP \<Longrightarrow>
     run_calls self (replicate n RecordSuccess) = (replicate n (UP, False), self)"
  by (induction n) (simp_all add: record_success_UP)

text \<open>
  Claim C1. For every finite sequence of calls made one after the other on an object that starts
  \<open>UP\<close>, and for whichever call comes next: the pair that call returns is the state before the
  call together with a flag, and the flag of \<open>record_failure\<close> is true exactly when that state
  is \<open>UP\<close>, the flag of \<open>record_success\<close> exactly when it is \<open>DOWN\<close>. Any number of
  \<open>record_success\<close> calls on the fresh object all return \<open>(UP, False)\<close>, and failure, failure,
  success, failure returns the flags true, false, true, true.
\<close>

theorem outage_flags_follow_previous_state:
  "fst (run_calls OutageState_init (cs @ [c])) =
     fst (run_calls OutageState_init cs) @
       [(let before = get_state_sync (snd (run_calls OutageState_init cs)) in
         (before, case c of RecordFailure \<Rightarrow> before = UP | RecordSuccess \<Rightarrow> before = DOWN))]
   \<and> fst (run_calls OutageState_init (replicate n RecordSuccess)) = replicate n (UP, False)
   \<and> map snd (fst (run_calls OutageState_init
         [RecordFailure, RecordFailure, RecordSuccess, RecordFailure])) =
       [True, False, True, True]"
proof (intro conjI)
  show "fst (run_calls OutageState_init (cs @ [c])) =
     fst (run_calls OutageState_init cs) @
       [(let before = get_state_sync (snd (run_calls OutageState_init cs)) in
         (before, case c of RecordFailure \<Rightarrow> before = UP | RecordSuccess \<Rightarrow> before = DOWN))]"
  proof (cases c)
    case RecordFailure
    then show ?thesis
      by (cases "cur_state (snd (run_calls OutageState_init cs))")
         (simp_all add: run_calls_append record_failure_def get_state_sync_def Let_def)
  next
    case RecordSuccess
    then show ?thesis
      by (cases "cur_state (snd (run_calls OutageState_init cs))")
         (simp_all add: run_calls_append record_success_def get_state_sync_def Let_def)
  qed
next
  show "fst (run_calls OutageState_init (replicate n RecordSuccess)) = replicate n (UP, False)"
    by (simp add: run_calls_success_UP OutageState_init_def)
next
  show "map snd (fst (run_calls OutageState_init
         [RecordFailure, RecordFailure, RecordSuccess, RecordFailure])) =
       [True, False, True, True]"
    by (simp add: OutageState_init_def record_failure_def record_success_def)
qed


section \<open>core/ping.py: results\<close>

lemma starts_with_prefix: "starts_with xs ys \<longleftrightarrow> prefix xs ys"
  by (induction xs ys rule: starts_with.induct) auto

lemma py_in_sublist: "py_in needle hay \<longleftrightarrow> sublist needle hay"
  by (induction hay) (auto simp: starts_with_prefix sublist_Cons_right)

lemma request_timed_out: "sublist ''request timed out'' s \<Longrightarrow> sublist ''timed out'' s"
proof -
  have "sublist ''timed out'' ''request timed out''"
    unfolding py_in_sublist [symmetric] by simp
  then show "sublist ''request timed out'' s \<Longrightarrow> sublist ''timed out'' s"
    using sublist_order.order.trans by blast
qed

lemma interpret_ping_cases:
  "interpret_ping py returncode out elapsed_ms t =
     (if returncode = 0 then
        \<lparr>success = True,
         latency_ms =
           Some (case parse_latency py out of Some v \<Rightarrow> v | None \<Rightarrow> round_1 py elapsed_ms),
         reason = ''OK''\<rparr>
      else if sublist ''timed out'' (lower out) \<or> sublist ''timeout'' (lower out) then
        \<lparr>success = False, latency_ms = None, reason = ''TIMEOUT''\<rparr>
      else if sublist ''unreachable'' (lower out) then
        \<lparr>success = False, latency_ms = None, reason = ''UNREACHABLE''\<rparr>
      else \<lparr>success = False, latency_ms = None, reason = ''ERROR:'' @ str_int returncode\<rparr>)"
  unfolding interpret_ping_def Let_def py_in_sublist
  using request_timed_out [of "lower out"] by auto

lemma run_ping_raises:
  "ping_command py plat h t = Inl e \<Longrightarrow> run_ping py plat proc h t = Inl e"
  by (simp add: run_ping_def)

lemma run_ping_runs:
  "ping_command py plat h t = Inr (cmd, bound) \<Longrightarrow>
     run_ping py plat proc h t =
       (case proc cmd bound of
          Spawn_raises e \<Rightarrow> on_exception py e
        | Wait_raises e \<Rightarrow> on_exception py e
        | Completed returncode out elapsed_ms \<Rightarrow>
            Inr (interpret_ping py (case returncode of Some r \<Rightarrow> r | None \<Rightarrow> 0)
                   out elapsed_ms t))"
  by (simp add: run_ping_def)

lemma ping_command_cases:
  "ping_command py plat h t =
     (let v = (case plat of Win32 \<Rightarrow> t | Not_win32 \<Rightarrow> timeout_seconds t) in
      if 0 < int_max_str_digits py \<and> int_max_str_digits py < length (str_nat (nat \<bar>v\<bar>))
      then Inl ValueError
      else if 2 ^ 1024 - 2 ^ 970 \<le> \<bar>v\<bar> then Inl OverflowError
      else Inr ([''ping'', (case plat of Win32 \<Rightarrow> ''-n'' | Not_win32 \<Rightarrow> ''-c''), ''1'',
                 (case plat of Win32 \<Rightarrow> ''-w'' | Not_win32 \<Rightarrow> ''-W''), str_int v, h],
                (case plat of
                   Win32 \<Rightarrow>
                     float_add py (float_div py (from_decimal py (of_int v)) (from_decimal py 1000))
                       (from_decimal py 2)
                 | Not_win32 \<Rightarrow> float_add py (from_decimal py (of_int v)) (from_decimal py 2))))"
  by (cases plat) (simp_all add: ping_command_def py_str_def float_of_int_def Let_def)

lemma div_1000_bounds:
  fixes t :: int
  shows "1000 * ((t + 999) div 1000) - 1000 < t" and "t \<le> 1000 * ((t + 999) div 1000)"
proof -
  have eq: "t + 999 = 1000 * ((t + 999) div 1000) + (t + 999) mod 1000" by simp
  have "0 \<le> (t + 999) mod 1000" and "(t + 999) mod 1000 < 1000" by simp_all
  with eq show "1000 * ((t + 999) div 1000) - 1000 < t" and "t \<le> 1000 * ((t + 999) div 1000)"
    by linarith+
qed

lemma ceiling_div_1000: "\<lceil>of_int t / (1000::rat)\<rceil> = (t + 999) div 1000"
proof (rule ceiling_unique)
  have "of_int (1000 * ((t + 999) div 1000) - 1000) < (of_int t :: rat)"
    using div_1000_bounds(1) [of t] by (simp only: of_int_less_iff)
  then show "of_int ((t + 999) div 1000) - 1 < of_int t / (1000::rat)" by simp
  have "(of_int t :: rat) \<le> of_int (1000 * ((t + 999) div 1000))"
    using div_1000_bounds(2) [of t] by (simp only: of_int_le_iff)
  then show "of_int t / (1000::rat) \<le> of_int ((t + 999) div 1000)" by simp
qed

lemma timeout_seconds_ceiling: "timeout_seconds t = max 1 \<lceil>of_int t / (1000::rat)\<rceil>"
  by (simp only: timeout_seconds_def ceiling_div_1000)

lemma timeout_seconds_below_1000: "t < 1000 \<Longrightarrow> timeout_seconds t = 1"
proof -
  assume "t < 1000"
  then have "1000 * ((t + 999) div 1000) - 1000 < 1000"
    using div_1000_bounds(1) [of t] by linarith
  then have "(t + 999) div 1000 \<le> 1" by linarith
  then show ?thesis unfolding timeout_seconds_def by (simp add: max_def)
qed

lemma str_nat_1: "str_nat 1 = ''1''" "str_nat (Suc 0) = ''1''"
  by (subst str_nat.simps, simp add: digit_char_def)+

lemma str_nat_length: "n < 10 ^ k \<Longrightarrow> length (str_nat n) \<le> max 1 k"
proof (induction k arbitrary: n)
  case 0
  then show ?case by (subst str_nat.simps) simp
next
  case (Suc k)
  show ?case
  proof (cases "n < 10")
    case True
    then show ?thesis by (subst str_nat.simps) simp
  next
    case False
    with Suc.prems have "0 < k" by (cases k) simp_all
    from Suc.prems have "n div 10 < 10 ^ k" by (simp add: less_mult_imp_div_less mult.commute)
    then have "length (str_nat (n div 10)) \<le> max 1 k" by (rule Suc.IH)
    with False \<open>0 < k\<close> show ?thesis by (subst str_nat.simps) simp
  qed
qed

lemma example_command:
  "ping_command rat_floats Not_win32 h 1000 = Inr ([''ping'', ''-c'', ''1'', ''-W'', ''1'', h], 3)"
  by (simp add: ping_command_cases timeout_seconds_def str_nat_1 str_int_def rat_floats_def)

lemma ping_command_overflow:
  "v = (case plat of Win32 \<Rightarrow> t | Not_win32 \<Rightarrow> timeout_seconds t) \<Longrightarrow>
   length (str_nat (nat \<bar>v\<bar>)) \<le> int_max_str_digits py \<Longrightarrow>
   2 ^ 1024 - 2 ^ 970 \<le> \<bar>v\<bar> \<Longrightarrow>
     ping_command py plat h t = Inl OverflowError"
  by (simp add: ping_command_cases Let_def)

lemma timeout_seconds_thousands: "0 < k \<Longrightarrow> timeout_seconds (1000 * k) = k"
proof -
  assume "0 < k"
  have "1000 * ((1000 * k + 999) div 1000) - 1000 < 1000 * k"
    and "1000 * k \<le> 1000 * ((1000 * k + 999) div 1000)"
    by (rule div_1000_bounds)+
  then have "(1000 * k + 999) div 1000 = k" by linarith
  with \<open>0 < k\<close> show ?thesis unfolding timeout_seconds_def by (simp add: max_def)
qed

lemma float_range_edge: "(2::int) ^ 1024 - 2 ^ 970 \<le> \<bar>2 ^ 1024\<bar>"
proof -
  have "(0::int) \<le> 2 ^ 970" by (rule zero_le_power) simp
  then have "(2::int) ^ 1024 - 2 ^ 970 \<le> 2 ^ 1024"
    by (simp only: diff_le_eq le_add_same_cancel1)
  also have "(2::int) ^ 1024 = \<bar>2 ^ 1024\<bar>"
    by (rule abs_of_nonneg [symmetric]) (rule zero_le_power, simp)
  finally show ?thesis .
qed

lemma digits_of_edge: "length (str_nat (nat \<bar>2 ^ 1024\<bar>)) \<le> int_max_str_digits rat_floats"
proof -
  have "\<bar>(2::int) ^ 1024\<bar> = 2 ^ 1024"
    by (rule abs_of_nonneg) (rule zero_le_power, simp)
  then have "nat \<bar>(2::int) ^ 1024\<bar> = nat 2 ^ 1024"
    by (simp only: nat_power_eq [of 2 1024, OF zero_le_numeral])
  also have "nat 2 = (2::nat)" by simp
  finally have n: "nat \<bar>(2::int) ^ 1024\<bar> = 2 ^ 1024" .
  have "(2::nat) ^ 1024 < 10 ^ 1024" by (rule power_strict_mono) simp_all
  then have "length (str_nat (2 ^ 1024)) \<le> max 1 1024" by (rule str_nat_length)
  also have "max 1 1024 \<le> int_max_str_digits rat_floats" by (simp add: rat_floats_def)
  finally show ?thesis unfolding n .
qed


lemma overflow_posix:
  "ping_command rat_floats Not_win32 h (1000 * 2 ^ 1024) = Inl OverflowError"
proof (rule ping_command_overflow [where v = "2 ^ 1024"])
  have "timeout_seconds (1000 * 2 ^ 1024) = 2 ^ 1024"
    by (rule timeout_seconds_thousands) (rule zero_less_power, simp)
  then show "2 ^ 1024 =
      (case Not_win32 of Win32 \<Rightarrow> 1000 * 2 ^ 1024
       | Not_win32 \<Rightarrow> timeout_seconds (1000 * 2 ^ 1024))"
    by (simp only: platform.case)
  show "length (str_nat (nat \<bar>2 ^ 1024\<bar>)) \<le> int_max_str_digits rat_floats"
    by (rule digits_of_edge)
  show "(2::int) ^ 1024 - 2 ^ 970 \<le> \<bar>2 ^ 1024\<bar>" by (rule float_range_edge)
qed

text \<open>
  Claim C2. What the prober makes of a ping process: exit code 0 gives success with a latency,
  the parsed one or else the elapsed time rounded to one decimal; a nonzero exit code gives
  \<open>TIMEOUT\<close> when the lower-cased output contains \<open>timed out\<close> or \<open>timeout\<close>, else
  \<open>UNREACHABLE\<close> when it contains \<open>unreachable\<close>, else \<open>ERROR:\<close> followed by the code, all three
  without a latency. \<open>run_ping\<close> interprets a completed process this way (a return code of
  \<open>None\<close> counting as 0), and when \<open>wait_for\<close> raises \<open>asyncio.TimeoutError\<close> because the
  bound expired it returns \<open>TIMEOUT\<close> without a latency. This is so for every process that
  is run, hence whenever the lines before the \<open>try\<close> have built the command line; when they
  raise, no process is run and there is no outcome to interpret.
\<close>

theorem interpret_ping_classifies:
  "interpret_ping py returncode out elapsed_ms t =
     (if returncode = 0 then
        \<lparr>success = True,
         latency_ms =
           Some (case parse_latency py out of Some v \<Rightarrow> v | None \<Rightarrow> round_1 py elapsed_ms),
         reason = ''OK''\<rparr>
      else if sublist ''timed out'' (lower out) \<or> sublist ''timeout'' (lower out) then
        \<lparr>success = False, latency_ms = None, reason = ''TIMEOUT''\<rparr>
      else if sublist ''unreachable'' (lower out) then
        \<lparr>success = False, latency_ms = None, reason = ''UNREACHABLE''\<rparr>
      else \<lparr>success = False, latency_ms = None, reason = ''ERROR:'' @ str_int returncode\<rparr>)
   \<and> run_ping py plat (\<lambda>cmd timeout_s. Completed (Some returncode) out elapsed_ms) h t =
       (case ping_command py plat h t of
          Inl e \<Rightarrow> Inl e
        | Inr command \<Rightarrow> Inr (interpret_ping py returncode out elapsed_ms t))
   \<and> run_ping py plat (\<lambda>cmd timeout_s. Completed None out elapsed_ms) h t =
       (case ping_command py plat h t of
          Inl e \<Rightarrow> Inl e
        | Inr command \<Rightarrow> Inr (interpret_ping py 0 out elapsed_ms t))
   \<and> run_ping py plat (\<lambda>cmd timeout_s. Wait_raises Asyncio_TimeoutError) h t =
       (case ping_command py plat h t of
          Inl e \<Rightarrow> Inl e
        | Inr command \<Rightarrow> Inr \<lparr>success = False, latency_ms = None, reason = ''TIMEOUT''\<rparr>)"
  using interpret_ping_cases [of py returncode out elapsed_ms t]
  by (simp add: run_ping_def on_exception_def split: sum.splits prod.splits)

text \<open>
  Claim C3, as stated, fails: when \<open>create_subprocess_exec\<close> raises \<open>FileNotFoundError\<close> (no
  \<open>ping\<close> on the path), the \<open>except Exception\<close> clause answers, and the reason is
  \<open>ERROR:FileNotFoundError\<close>, not \<open>TIMEOUT\<close>.
\<close>

theorem spawn_failure_counterexample:
  "run_ping rat_floats Not_win32
     (\<lambda>cmd timeout_s. Spawn_raises (Other_Exception None ''FileNotFoundError''))
     ''10.0.0.1'' 1000 =
     Inr \<lparr>success = False, latency_ms = None, reason = ''ERROR:FileNotFoundError''\<rparr>
   \<and> ''ERROR:FileNotFoundError'' \<noteq> ''TIMEOUT''"
  by (simp add: run_ping_runs [OF example_command] on_exception_def)

text \<open>
  Claim C3, amended. When the subprocess cannot be spawned, \<open>run_ping\<close> returns a failure
  without a latency whose reason is \<open>ERROR:\<close> followed by the exception's \<open>returncode\<close>
  attribute if it has one and by the name of its class otherwise; the reason is \<open>TIMEOUT\<close>
  only when the exception raised is an \<open>asyncio.TimeoutError\<close>, which the builtin
  \<open>TimeoutError\<close> is from Python 3.11 on and is not before. (A process is spawned only when
  the lines before the \<open>try\<close> have built the command line.)
\<close>

theorem spawn_failure_reason:
  "run_ping py plat (\<lambda>cmd timeout_s. Spawn_raises (Other_Exception None name)) h t =
     (case ping_command py plat h t of
        Inl e \<Rightarrow> Inl e
      | Inr command \<Rightarrow>
          Inr \<lparr>success = False, latency_ms = None, reason = ''ERROR:'' @ name\<rparr>)
   \<and> run_ping py plat (\<lambda>cmd timeout_s. Spawn_raises (Other_Exception (Some code) name)) h t =
     (case ping_command py plat h t of
        Inl e \<Rightarrow> Inl e
      | Inr command \<Rightarrow>
          Inr \<lparr>success = False, latency_ms = None, reason = ''ERROR:'' @ code\<rparr>)
   \<and> run_ping py plat (\<lambda>cmd timeout_s. Spawn_raises Asyncio_TimeoutError) h t =
     (case ping_command py plat h t of
        Inl e \<Rightarrow> Inl e
      | Inr command \<Rightarrow> Inr \<lparr>success = False, latency_ms = None, reason = ''TIMEOUT''\<rparr>)
   \<and> run_ping py plat (\<lambda>cmd timeout_s. Spawn_raises Builtin_TimeoutError) h t =
     (case ping_command py plat h t of
        Inl e \<Rightarrow> Inl e
      | Inr command \<Rightarrow>
          Inr \<lparr>success = False, latency_ms = None,
               reason = (if timeout_error_is_builtin py then ''TIMEOUT''
                         else ''ERROR:TimeoutError'')\<rparr>)"
  by (simp add: run_ping_def on_exception_def split: sum.splits prod.splits)



lemma ping_command_one_second:
  "t < 1000 \<Longrightarrow>
     ping_command py Not_win32 h t =
       Inr ([''ping'', ''-c'', ''1'', ''-W'', ''1'', h],
            float_add py (from_decimal py 1) (from_decimal py 2))"
  by (auto simp: ping_command_cases timeout_seconds_below_1000 str_nat_1 str_int_def)

lemma posix_command:
  "ping_command py Not_win32 h t =
     (let v = timeout_seconds t in
      if 0 < int_max_str_digits py \<and> int_max_str_digits py < length (str_nat (nat v))
      then Inl ValueError
      else if 2 ^ 1024 - 2 ^ 970 \<le> v then Inl OverflowError
      else Inr ([''ping'', ''-c'', ''1'', ''-W'', str_int v, h],
                float_add py (from_decimal py (of_int v)) (from_decimal py 2)))"
proof -
  have "1 \<le> timeout_seconds t" by (simp add: timeout_seconds_def)
  then have "\<bar>timeout_seconds t\<bar> = timeout_seconds t" by simp
  then show ?thesis
    unfolding ping_command_cases Let_def platform.case by (simp only: list.inject)
qed

text \<open>
  Claim C10, as stated, fails: not for every \<open>timeout_ms\<close> is a timeout handed to the ping
  command. For the timeout \<open>1000 * 2 ** 1024\<close> the number of seconds is \<open>2 ** 1024\<close>, and
  \<open>timeout_s + 2.0\<close>, which is computed before the \<open>try\<close>, raises \<open>OverflowError\<close>: \<open>run_ping\<close>
  raises it, and no command is run.
\<close>

theorem posix_timeout_counterexample:
  "timeout_seconds (1000 * 2 ^ 1024) = 2 ^ 1024
   \<and> run_ping rat_floats Not_win32
       (\<lambda>cmd timeout_s. Completed (Some 0) ''time=5ms'' 5) ''10.0.0.1'' (1000 * 2 ^ 1024) =
     Inl OverflowError"
proof
  show "timeout_seconds (1000 * 2 ^ 1024) = 2 ^ 1024"
    by (rule timeout_seconds_thousands) (rule zero_less_power, simp)
  show "run_ping rat_floats Not_win32
       (\<lambda>cmd timeout_s. Completed (Some 0) ''time=5ms'' 5) ''10.0.0.1'' (1000 * 2 ^ 1024) =
     Inl OverflowError"
    by (rule run_ping_raises [OF overflow_posix])
qed

text \<open>
  Claim C10, amended. Off Windows, for every \<open>timeout_ms\<close>, the number of seconds is
  \<open>max(1, ceil(timeout_ms / 1000))\<close>, never below 1, and 1 for every timeout below 1000
  milliseconds. When this number has more digits than the interpreter's limit for \<open>str\<close>,
  \<open>run_ping\<close> raises \<open>ValueError\<close>; else, when it is \<open>2 ^ 1024 - 2 ^ 970\<close> or more, \<open>run_ping\<close>
  raises \<open>OverflowError\<close>; in both cases no command is run. Otherwise the number, written in
  decimal, is the value after \<open>-W\<close> on the command line, the bound of \<open>wait_for\<close> is the float
  sum of the number and \<open>2.0\<close> (which is the number plus 2 wherever that sum is exact), and
  these are the command and the bound the process is run with.
\<close>

theorem posix_timeout_is_ceiling:
  "ping_command py Not_win32 h t =
     (let v = max 1 \<lceil>of_int t / (1000::rat)\<rceil> in
      if 0 < int_max_str_digits py \<and> int_max_str_digits py < length (str_nat (nat v))
      then Inl ValueError
      else if 2 ^ 1024 - 2 ^ 970 \<le> v then Inl OverflowError
      else Inr ([''ping'', ''-c'', ''1'', ''-W'', str_int v, h],
                float_add py (from_decimal py (of_int v)) (from_decimal py 2)))
   \<and> run_ping py Not_win32 proc h t =
       (case ping_command py Not_win32 h t of
          Inl e \<Rightarrow> Inl e
        | Inr (cmd, bound) \<Rightarrow>
            (case proc cmd bound of
               Spawn_raises e \<Rightarrow> on_exception py e
             | Wait_raises e \<Rightarrow> on_exception py e
             | Completed returncode out elapsed_ms \<Rightarrow>
                 Inr (interpret_ping py (case returncode of Some r \<Rightarrow> r | None \<Rightarrow> 0)
                        out elapsed_ms t)))
   \<and> timeout_seconds t = max 1 \<lceil>of_int t / (1000::rat)\<rceil>
   \<and> 1 \<le> timeout_seconds t
   \<and> (t < 1000 \<longrightarrow>
        timeout_seconds t = 1
        \<and> ping_command py Not_win32 h t =
            Inr ([''ping'', ''-c'', ''1'', ''-W'', ''1'', h],
                 float_add py (from_decimal py 1) (from_decimal py 2)))"
proof (intro conjI impI)
  show "ping_command py Not_win32 h t =
     (let v = max 1 \<lceil>of_int t / (1000::rat)\<rceil> in
      if 0 < int_max_str_digits py \<and> int_max_str_digits py < length (str_nat (nat v))
      then Inl ValueError
      else if 2 ^ 1024 - 2 ^ 970 \<le> v then Inl OverflowError
      else Inr ([''ping'', ''-c'', ''1'', ''-W'', str_int v, h],
                float_add py (from_decimal py (of_int v)) (from_decimal py 2)))"
    unfolding posix_command timeout_seconds_ceiling by (rule refl)
  show "run_ping py Not_win32 proc h t =
       (case ping_command py Not_win32 h t of
          Inl e \<Rightarrow> Inl e
        | Inr (cmd, bound) \<Rightarrow>
            (case proc cmd bound of
               Spawn_raises e \<Rightarrow> on_exception py e
             | Wait_raises e \<Rightarrow> on_exception py e
             | Completed returncode out elapsed_ms \<Rightarrow>
                 Inr (interpret_ping py (case returncode of Some r \<Rightarrow> r | None \<Rightarrow> 0)
                        out elapsed_ms t)))"
    by (rule run_ping_def)
  show "timeout_seconds t = max 1 \<lceil>of_int t / (1000::rat)\<rceil>"
    by (rule timeout_seconds_ceiling)
  show "1 \<le> timeout_seconds t"
    by (simp add: timeout_seconds_def)
  show "timeout_seconds t = 1" if "t < 1000"
    using that by (rule timeout_seconds_below_1000)
  show "ping_command py Not_win32 h t =
            Inr ([''ping'', ''-c'', ''1'', ''-W'', ''1'', h],
                 float_add py (from_decimal py 1) (from_decimal py 2))" if "t < 1000"
    using that by (rule ping_command_one_second)
qed

theorem posix_timeout_is_ceiling_witness:
  "(250::int) < 1000 \<and> timeout_seconds 250 = 1
   \<and> ping_command rat_floats Not_win32 ''10.0.0.1'' 250 =
       Inr ([''ping'', ''-c'', ''1'', ''-W'', ''1'', ''10.0.0.1''], 3)"
proof -
  have small: "(250::int) < 1000" by simp
  have "timeout_seconds 250 = 1
        \<and> ping_command rat_floats Not_win32 ''10.0.0.1'' 250 =
            Inr ([''ping'', ''-c'', ''1'', ''-W'', ''1'', ''10.0.0.1''],
                 float_add rat_floats (from_decimal rat_floats 1) (from_decimal rat_floats 2))"
    using posix_timeout_is_ceiling
      [of rat_floats "''10.0.0.1''" 250 "\<lambda>cmd timeout_s. Wait_raises Asyncio_TimeoutError"]
      small
    by blast
  then show ?thesis by (simp add: rat_floats_def)
qed
section \<open>core/monitor.py: results\<close>

lemma run_one_target_raises:
  "run_ping py plat proc (host tg0) (timeout tg0) = Inl e \<Longrightarrow>
     run_one_target py plat proc tg0 tg st = Inl e"
  by (simp add: run_one_target_def)

lemma run_one_target_returns:
  "run_ping py plat proc (host tg0) (timeout tg0) = Inr result \<Longrightarrow>
     run_one_target py plat proc tg0 tg st =
       (let ost = (case outage_states st (target_alias tg) of
                     Some found \<Rightarrow> found | None \<Rightarrow> OutageState_init);
            detail =
              (if success result then
                 detail_for_display True
                   (case latency_ms result of
                      Some l \<Rightarrow> (if falsy py l then ''0'' else format_0f py l) @ ''ms''
                    | None \<Rightarrow> ''0'')
                   (display_mode st)
               else detail_for_display False (reason result) (display_mode st))
        in Inr (st\<lparr>outage_states := (outage_states st)
                    (target_alias tg \<mapsto>
                       snd (if success result then record_success ost else record_failure ost))\<rparr>,
                (if success result then
                   (if snd (fst (record_success ost)) \<and> notifications_enabled st
                    then [(''Pingu'', target_alias tg @ '' is reachable again.'', False)]
                    else [])
                 else if notifications_enabled st then
                   [(''Pingu'', target_alias tg @ '' is DOWN: '' @ reason result @ ''.'',
                     snd (fst (record_failure ost)) \<and> sound_on_down st)]
                 else []),
                \<lparr>upd_alias = target_alias tg, upd_host = host tg,
                 upd_line =
                   target_alias tg @ (if success result then '' - OK '' else '' - DOWN '')
                     @ detail,
                 upd_success = success result, upd_detail = detail,
                 upd_display_mode = display_mode st\<rparr>))"
  by (simp add: run_one_target_def Let_def split: prod.splits)


lemma one_second_command:
  "ping_command py Not_win32 h 1000 =
     Inr ([''ping'', ''-c'', ''1'', ''-W'', ''1'', h],
          float_add py (from_decimal py 1) (from_decimal py 2))"
  by (auto simp: ping_command_cases timeout_seconds_def str_nat_1 str_int_def)

lemma example_failure:
  "run_ping rat_floats Not_win32 (\<lambda>cmd timeout_s. Completed (Some 1) [] 0)
     (host example_target) (timeout example_target) =
     Inr \<lparr>success = False, latency_ms = None, reason = ''ERROR:1''\<rparr>"
proof -
  have "interpret_ping rat_floats 1 [] 0 1000 =
          \<lparr>success = False, latency_ms = None, reason = ''ERROR:1''\<rparr>"
    by code_simp
  then show ?thesis
    by (simp add: example_target_def run_ping_runs [OF example_command])
qed

lemma digit_char_is_digit: "d < 10 \<Longrightarrow> digit_char d \<in> set ''0123456789''"
proof -
  assume "d < 10"
  then have "d \<in> {0, 1, 2, 3, 4, 5, 6, 7, 8, 9}" by auto
  then show ?thesis by (auto simp: digit_char_def)
qed

lemma str_nat_digits: "set (str_nat n) \<subseteq> set ''0123456789''"
proof (induction n rule: str_nat.induct)
  case (1 n)
  show ?case
  proof (cases "n < 10")
    case True
    then show ?thesis
      using digit_char_is_digit [of n] by (subst str_nat.simps) simp
  next
    case False
    have "n mod 10 < 10" by simp
    then have "digit_char (n mod 10) \<in> set ''0123456789''" by (rule digit_char_is_digit)
    with False 1 show ?thesis by (subst str_nat.simps) simp
  qed
qed

lemma str_int_chars: "set (str_int i) \<subseteq> set ''-0123456789''"
proof (cases "i < 0")
  case True
  then show ?thesis
    using str_nat_digits [of "nat (- i)"] by (simp add: str_int_def subset_insertI2)
next
  case False
  then show ?thesis
    using str_nat_digits [of "nat i"] by (simp add: str_int_def subset_insertI2)
qed

lemma upper_char_plain: "c \<in> set ''-0123456789'' \<Longrightarrow> upper_char c = [c]"
proof -
  have "list_all (\<lambda>c. upper_char c = [c]) ''-0123456789''" by code_simp
  then show "c \<in> set ''-0123456789'' \<Longrightarrow> upper_char c = [c]"
    unfolding list_all_iff by blast
qed


lemma upper_plain: "set s \<subseteq> set ''-0123456789'' \<Longrightarrow> upper s = s"
proof (induction s)
  case Nil
  show ?case by (simp add: upper_def)
next
  case (Cons c s)
  have "c \<in> set ''-0123456789''"
    by (rule subsetD [OF Cons.prems]) (rule list.set_intros(1))
  then have "upper_char c = [c]" by (rule upper_char_plain)
  moreover have "upper s = s"
    by (rule Cons.IH) (rule subset_trans [OF set_subset_Cons Cons.prems])
  ultimately show ?case by (simp add: upper_def)
qed

lemma upper_append: "upper (a @ b) = upper a @ upper b"
  by (simp add: upper_def)

lemma no_T_no_TIMEOUT: "CHR ''T'' \<notin> set s \<Longrightarrow> \<not> py_in ''TIMEOUT'' s"
proof
  assume "CHR ''T'' \<notin> set s" and "py_in ''TIMEOUT'' s"
  from this(2) have "set ''TIMEOUT'' \<subseteq> set s"
    unfolding py_in_sublist by (rule set_mono_sublist)
  with \<open>CHR ''T'' \<notin> set s\<close> show False by simp
qed


lemma error_code_is_503: "detail_for_display False (''ERROR:'' @ str_int code) ''codes'' = ''503''"
proof -
  have "upper ''ERROR:'' = ''ERROR:''" by code_simp
  then have up: "upper (''ERROR:'' @ str_int code) = ''ERROR:'' @ str_int code"
    unfolding upper_append using upper_plain [OF str_int_chars, of code] by simp
  have "CHR ''T'' \<notin> set ''-0123456789''" by simp
  then have "CHR ''T'' \<notin> set (str_int code)"
    using str_int_chars [of code] by blast
  then have "CHR ''T'' \<notin> set (''ERROR:'' @ str_int code)" by simp
  then have "\<not> py_in ''TIMEOUT'' (upper (''ERROR:'' @ str_int code))"
    unfolding up by (rule no_T_no_TIMEOUT)
  then show ?thesis by (simp add: detail_for_display_def)
qed

lemma timeout_is_408: "detail_for_display False ''TIMEOUT'' ''codes'' = ''408''"
  by code_simp

lemma unreachable_is_503: "detail_for_display False ''UNREACHABLE'' ''codes'' = ''503''"
  by code_simp

text \<open>
  Claim C4, as stated, fails: on the first failure of an outage, with notifications enabled
  and sound-on-down disabled, \<open>run_one_target\<close> calls \<open>notify.notify\<close> once, without sound, while
  none of the three rules calls for a notification.
\<close>

theorem notifier_counterexample:
  "(case run_one_target rat_floats Not_win32 (\<lambda>cmd timeout_s. Completed (Some 1) [] 0)
           example_target example_target (example_state\<lparr>sound_on_down := False\<rparr>) of
      Inl e \<Rightarrow> False
    | Inr (state', calls, update) \<Rightarrow> calls = [(''Pingu'', ''gw is DOWN: ERROR:1.'', False)])
   \<and> snd (fst (record_failure OutageState_init))
   \<and> decision_rules False False True True False = []"
proof (intro conjI)
  show "case run_one_target rat_floats Not_win32 (\<lambda>cmd timeout_s. Completed (Some 1) [] 0)
           example_target example_target (example_state\<lparr>sound_on_down := False\<rparr>) of
      Inl e \<Rightarrow> False
    | Inr (state', calls, update) \<Rightarrow> calls = [(''Pingu'', ''gw is DOWN: ERROR:1.'', False)]"
    unfolding run_one_target_returns [OF example_failure] by code_simp
  show "snd (fst (record_failure OutageState_init))" by code_simp
  show "decision_rules False False True True False = []" by code_simp
qed

text \<open>
  Claim C4, amended. In every probe cycle the notifier is called at most once, and exactly as
  follows, where the two flags are those \<open>record_success\<close> and \<open>record_failure\<close> return for the
  target's outage state (a fresh one when the alias has none): on success, once without sound
  when \<open>should_announce_recovery\<close> is true and notifications are enabled, and not at all
  otherwise; on failure with notifications enabled, once, with sound when it is the first
  failure of the outage and sound-on-down is enabled, and without sound otherwise (so also on
  a first failure with sound-on-down disabled); on failure with notifications disabled, not
  at all. When \<open>run_ping\<close> lets an exception through there is no call. (\<open>tg0\<close> is the target
  as it is when \<open>run_ping\<close> is called, \<open>tg\<close> as it is when \<open>run_ping\<close> has returned.)
\<close>

theorem notifier_calls_of_a_cycle:
  "(case run_ping py plat proc (host tg0) (timeout tg0) of
      Inl e \<Rightarrow> run_one_target py plat proc tg0 tg st = Inl e
    | Inr result \<Rightarrow>
        (let ost = (case outage_states st (target_alias tg) of
                      Some found \<Rightarrow> found | None \<Rightarrow> OutageState_init);
             should_announce_recovery = snd (fst (record_success ost));
             is_first_failure = snd (fst (record_failure ost));
             calls =
               (if success result then
                  (if should_announce_recovery \<and> notifications_enabled st
                   then [(''Pingu'', target_alias tg @ '' is reachable again.'', False)]
                   else [])
                else if notifications_enabled st then
                  [(''Pingu'', target_alias tg @ '' is DOWN: '' @ reason result @ ''.'',
                    is_first_failure \<and> sound_on_down st)]
                else [])
         in (\<exists>state' update. run_one_target py plat proc tg0 tg st = Inr (state', calls, update))
            \<and> length calls \<le> 1))"
proof (cases "run_ping py plat proc (host tg0) (timeout tg0)")
  case (Inl e)
  then show ?thesis by (simp add: run_one_target_raises)
next
  case (Inr result)
  then show ?thesis
    by (simp add: run_one_target_returns [OF Inr] Let_def)
qed

text \<open>
  Claim C7, as stated, fails on the interpreters before Python 3.11, where the builtin
  \<open>TimeoutError\<close> is not \<open>asyncio.TimeoutError\<close>. When starting the process raises the builtin
  \<open>TimeoutError\<close> (the error \<open>ETIMEDOUT\<close> of the operating system), the \<open>except Exception\<close>
  clause answers and the reason is \<open>ERROR:TimeoutError\<close>, which is not the reason \<open>TIMEOUT\<close>;
  but the test for the code 408 is whether the upper-cased reason contains \<open>TIMEOUT\<close>, so the
  line ends in 408, not 503.
\<close>

theorem display_code_counterexample:
  "run_ping python_3_10 Not_win32 (\<lambda>cmd timeout_s. Spawn_raises Builtin_TimeoutError)
     (host example_target) (timeout example_target) =
     Inr \<lparr>success = False, latency_ms = None, reason = ''ERROR:TimeoutError''\<rparr>
   \<and> ''ERROR:TimeoutError'' \<noteq> ''TIMEOUT''
   \<and> (case run_one_target python_3_10 Not_win32
              (\<lambda>cmd timeout_s. Spawn_raises Builtin_TimeoutError)
              example_target example_target (example_state\<lparr>display_mode := ''codes''\<rparr>) of
         Inl e \<Rightarrow> False
       | Inr (state', calls, update) \<Rightarrow> upd_line update = ''gw - DOWN 408'')"
proof (intro conjI)
  show ping: "run_ping python_3_10 Not_win32 (\<lambda>cmd timeout_s. Spawn_raises Builtin_TimeoutError)
     (host example_target) (timeout example_target) =
     Inr \<lparr>success = False, latency_ms = None, reason = ''ERROR:TimeoutError''\<rparr>"
    by (simp add: example_target_def run_ping_runs [OF one_second_command] on_exception_def
          python_3_10_def rat_floats_def)
  show "''ERROR:TimeoutError'' \<noteq> ''TIMEOUT''" by simp
  show "case run_one_target python_3_10 Not_win32
              (\<lambda>cmd timeout_s. Spawn_raises Builtin_TimeoutError)
              example_target example_target (example_state\<lparr>display_mode := ''codes''\<rparr>) of
         Inl e \<Rightarrow> False
       | Inr (state', calls, update) \<Rightarrow> upd_line update = ''gw - DOWN 408''"
    unfolding run_one_target_returns [OF ping] by code_simp
qed

text \<open>
  Claim C7, amended. For every published update the line is the alias, then \<open> - OK \<close> on success
  and \<open> - DOWN \<close> on failure, then the detail. In display mode \<open>codes\<close> the detail is 200 on
  success, 408 on a failure whose upper-cased reason contains \<open>TIMEOUT\<close>, and 503 on any other
  failure; so it is 408 for the reason \<open>TIMEOUT\<close> and 503 for \<open>UNREACHABLE\<close> and for \<open>ERROR:\<close>
  followed by an integer code. In every other display mode, \<open>latency\<close> among them, the detail
  is the raw detail unchanged: on success the latency text, on failure the reason. (The alias
  is the one the target has when \<open>run_ping\<close> has returned.)
\<close>

theorem display_line_of_a_cycle:
  "(case run_ping py plat proc (host tg0) (timeout tg0) of
      Inl e \<Rightarrow> run_one_target py plat proc tg0 tg st = Inl e
    | Inr result \<Rightarrow>
        (let raw =
               (if success result then
                  (case latency_ms result of
                     Some l \<Rightarrow> (if falsy py l then ''0'' else format_0f py l) @ ''ms''
                   | None \<Rightarrow> ''0'')
                else reason result);
             detail =
               (if display_mode st = ''codes'' then
                  (if success result then ''200''
                   else if sublist ''TIMEOUT'' (upper (reason result)) then ''408''
                   else ''503'')
                else raw)
         in \<exists>state' calls update.
              run_one_target py plat proc tg0 tg st = Inr (state', calls, update)
              \<and> upd_line update =
                  target_alias tg @ (if success result then '' - OK '' else '' - DOWN '') @ detail
              \<and> upd_detail update = detail
              \<and> upd_success update = success result))
   \<and> detail_for_display False ''TIMEOUT'' ''codes'' = ''408''
   \<and> detail_for_display False ''UNREACHABLE'' ''codes'' = ''503''
   \<and> detail_for_display False (''ERROR:'' @ str_int code) ''codes'' = ''503''
   \<and> detail_for_display ok text ''latency'' = text"
proof (intro conjI)
  show "case run_ping py plat proc (host tg0) (timeout tg0) of
      Inl e \<Rightarrow> run_one_target py plat proc tg0 tg st = Inl e
    | Inr result \<Rightarrow>
        (let raw =
               (if success result then
                  (case latency_ms result of
                     Some l \<Rightarrow> (if falsy py l then ''0'' else format_0f py l) @ ''ms''
                   | None \<Rightarrow> ''0'')
                else reason result);
             detail =
               (if display_mode st = ''codes'' then
                  (if success result then ''200''
                   else if sublist ''TIMEOUT'' (upper (reason result)) then ''408''
                   else ''503'')
                else raw)
         in \<exists>state' calls update.
              run_one_target py plat proc tg0 tg st = Inr (state', calls, update)
              \<and> upd_line update =
                  target_alias tg @ (if success result then '' - OK '' else '' - DOWN '') @ detail
              \<and> upd_detail update = detail
              \<and> upd_success update = success result)"
  proof (cases "run_ping py plat proc (host tg0) (timeout tg0)")
    case (Inl e)
    then show ?thesis by (simp add: run_one_target_raises)
  next
    case (Inr result)
    then show ?thesis
      by (simp add: run_one_target_returns [OF Inr] Let_def detail_for_display_def
            py_in_sublist)
  qed
  show "detail_for_display False ''TIMEOUT'' ''codes'' = ''408''"
    by (rule timeout_is_408)
  show "detail_for_display False ''UNREACHABLE'' ''codes'' = ''503''"
    by (rule unreachable_is_503)
  show "detail_for_display False (''ERROR:'' @ str_int code) ''codes'' = ''503''"
    by (rule error_code_is_503)
  show "detail_for_display ok text ''latency'' = text"
    by (simp add: detail_for_display_def)
qed







text \<open>
  The loop follows its own object. When the user interface renames the target in place during
  a sleep, no object bears the old alias any more; the loop looks for the alias its object has
  now, finds the object, and probes it again, and the update of that cycle carries the new
  alias.
\<close>

lemma renamed_target_is_still_probed:
  "(let r = schedule_target rat_floats Not_win32 0 example_world 0
              [quiet_cycle (\<lambda>cmd timeout_s. Completed (Some 1) [] 0),
               (quiet_cycle (\<lambda>cmd timeout_s. Completed (Some 0) ''time=5ms'' 5))
                 \<lparr>while_asleep := rename 0 ''gw2''\<rparr>]
    in status r = Sleeping
       \<and> probes r = [(''10.0.0.1'', 1000), (''10.0.0.1'', 1000)]
       \<and> map upd_line (updates r) = [''gw - DOWN ERROR:1'', ''gw2 - OK 5ms''])"
  by code_simp

section \<open>Latency parsing: results\<close>

lemma lower_char_m_s:
  "lower_char CHR ''m'' = CHR ''m''" "lower_char CHR ''s'' = CHR ''s''"
  by code_simp+

lemma space_is_not_m: "is_space c \<Longrightarrow> lower_char c \<noteq> CHR ''m''"
proof -
  have "list_all (\<lambda>c. lower_char c \<noteq> CHR ''m'')
          [CHR 0x09, CHR 0x0A, CHR 0x0B, CHR 0x0C, CHR 0x0D, CHR 0x1C, CHR 0x1D, CHR 0x1E,
           CHR 0x1F, CHR 0x20, CHR 0x85, CHR 0xA0]"
    by code_simp
  then show "is_space c \<Longrightarrow> lower_char c \<noteq> CHR ''m''"
    unfolding is_space_def list_all_iff by blast
qed

lemma digit_or_dot_plain:
  "digit_or_dot c \<Longrightarrow>
     \<not> is_space c \<and> lower_char c \<noteq> CHR ''m'' \<and> c \<noteq> CHR ''='' \<and> c \<noteq> CHR '':''"
proof -
  have "list_all
          (\<lambda>c. \<not> is_space c \<and> lower_char c \<noteq> CHR ''m'' \<and> c \<noteq> CHR ''='' \<and> c \<noteq> CHR '':'')
          ''0123456789.''"
    by code_simp
  then show "digit_or_dot c \<Longrightarrow>
     \<not> is_space c \<and> lower_char c \<noteq> CHR ''m'' \<and> c \<noteq> CHR ''='' \<and> c \<noteq> CHR '':''"
    unfolding digit_or_dot_def is_digit_def list_all_iff by auto
qed

lemma eq_or_colon_no_space: "c = CHR ''='' \<or> c = CHR '':'' \<Longrightarrow> \<not> is_space c"
  by (auto simp: is_space_def)

lemma atom_ok_lit:
  "x = lower_char x \<Longrightarrow> atom_ok ic (Lit x) c \<Longrightarrow>
     (if ic then lower_char c else c) = x \<and> lower_char c = x"
  by (cases ic) auto

lemma match_one:
  "match_here ic (One a # rx) s g = Some r \<Longrightarrow>
     \<exists>c cs. s = c # cs \<and> atom_ok ic a c \<and> match_here ic rx cs g = Some r"
  by (cases s) (simp_all split: if_splits)

lemma match_ms:
  assumes "match_here ic [One (Lit CHR ''m''), One (Lit CHR ''s'')] s g = Some r"
  shows "starts_with ''ms'' (if ic then lower s else s)"
    and "\<exists>c cs. s = c # cs \<and> lower_char c = CHR ''m''"
proof -
  from assms obtain c cs where 1: "s = c # cs" "atom_ok ic (Lit CHR ''m'') c"
    "match_here ic [One (Lit CHR ''s'')] cs g = Some r"
    using match_one by blast
  then obtain d ds where 2: "cs = d # ds" "atom_ok ic (Lit CHR ''s'') d"
    using match_one by blast
  have m: "(if ic then lower_char c else c) = CHR ''m''" "lower_char c = CHR ''m''"
    using atom_ok_lit [OF lower_char_m_s(1) [symmetric] 1(2)] by simp_all
  have s: "(if ic then lower_char d else d) = CHR ''s''"
    using atom_ok_lit [OF lower_char_m_s(2) [symmetric] 2(2)] by simp
  show "starts_with ''ms'' (if ic then lower s else s)"
    using m(1) s unfolding 1(1) 2(1) by (cases ic) (simp_all add: lower_def)
  show "\<exists>c cs. s = c # cs \<and> lower_char c = CHR ''m''"
    using 1(1) m(2) by blast
qed

lemma ms_follows_space: "is_space c \<Longrightarrow> ms_follows ic (c # cs) = ms_follows ic cs"
  by (simp add: ms_follows_def)

lemma ms_follows_no_space:
  "\<not> is_space c \<Longrightarrow>
     ms_follows ic (c # cs) = starts_with ''ms'' (if ic then lower (c # cs) else c # cs)"
  by (simp add: ms_follows_def)

lemma ms_follows_first:
  "ms_follows ic (c # cs) \<Longrightarrow> is_space c \<or> lower_char c = CHR ''m''"
proof (cases "is_space c")
  case True
  then show ?thesis by simp
next
  case False
  assume "ms_follows ic (c # cs)"
  with False have "starts_with ''ms'' (if ic then lower (c # cs) else c # cs)"
    by (simp add: ms_follows_no_space)
  then have "lower_char c = CHR ''m''"
    using lower_char_m_s(1) by (cases ic) (auto simp: lower_def)
  then show ?thesis by simp
qed

lemma match_spaces_ms:
  "match_here ic [Star (Class Whitespace), One (Lit CHR ''m''), One (Lit CHR ''s'')] s g = Some r
     \<Longrightarrow> ms_follows ic s"
proof (induction s)
  case Nil
  then show ?case by simp
next
  case (Cons c cs)
  show ?case
  proof (cases "is_space c")
    case True
    show ?thesis
    proof (cases "match_here ic [Star (Class Whitespace), One (Lit CHR ''m''),
                     One (Lit CHR ''s'')] cs g")
      case None
      with True Cons.prems
      have "match_here ic [One (Lit CHR ''m''), One (Lit CHR ''s'')] (c # cs) g = Some r"
        by simp
      then have "lower_char c = CHR ''m''" using match_ms(2) by blast
      with space_is_not_m [OF True] show ?thesis by simp
    next
      case (Some r')
      with True Cons.prems have "r' = r" by simp
      with Some have "ms_follows ic cs" by (intro Cons.IH) simp
      with True show ?thesis by (simp add: ms_follows_space)
    qed
  next
    case False
    with Cons.prems
    have "match_here ic [One (Lit CHR ''m''), One (Lit CHR ''s'')] (c # cs) g = Some r"
      by simp
    then have "starts_with ''ms'' (if ic then lower (c # cs) else c # cs)" by (rule match_ms(1))
    with False show ?thesis by (simp add: ms_follows_no_space)
  qed
qed

lemma match_in_group:
  "match_here ic [In_group (Class Digit_or_dot) acc, Star (Class Whitespace),
                  One (Lit CHR ''m''), One (Lit CHR ''s'')] s g = Some r
     \<Longrightarrow> ms_follows ic (dropWhile digit_or_dot s)"
proof (induction s arbitrary: acc r)
  case Nil
  then show ?case by simp
next
  case (Cons c cs)
  let ?tail = "[Star (Class Whitespace), One (Lit CHR ''m''), One (Lit CHR ''s'')]"
  show ?case
  proof (cases "digit_or_dot c")
    case True
    then have dd: "is_digit c \<or> c = CHR ''.''" by (simp add: digit_or_dot_def)
    show ?thesis
    proof (cases "match_here ic (In_group (Class Digit_or_dot) (acc @ [c]) # ?tail) cs g")
      case None
      with dd Cons.prems have "match_here ic ?tail (c # cs) acc = Some r" by simp
      then have "ms_follows ic (c # cs)" by (rule match_spaces_ms)
      then have "is_space c \<or> lower_char c = CHR ''m''" by (rule ms_follows_first)
      with digit_or_dot_plain [OF True] show ?thesis by blast
    next
      case (Some r')
      then have "ms_follows ic (dropWhile digit_or_dot cs)" by (rule Cons.IH)
      with True show ?thesis by simp
    qed
  next
    case False
    then have "\<not> (is_digit c \<or> c = CHR ''.'')" by (simp add: digit_or_dot_def)
    with Cons.prems have "match_here ic ?tail (c # cs) acc = Some r" by simp
    then have "ms_follows ic (c # cs)" by (rule match_spaces_ms)
    with False show ?thesis by simp
  qed
qed

lemma match_rx_ms:
  "match_here ic rx_ms s g = Some r \<Longrightarrow> number_ms_here ic s"
proof (cases s)
  case Nil
  assume "match_here ic rx_ms s g = Some r"
  with Nil show ?thesis by (simp add: rx_ms_def)
next
  case (Cons c cs)
  assume "match_here ic rx_ms s g = Some r"
  with Cons have dd: "is_digit c \<or> c = CHR ''.''"
    and "match_here ic [In_group (Class Digit_or_dot) [c], Star (Class Whitespace),
                        One (Lit CHR ''m''), One (Lit CHR ''s'')] cs g = Some r"
    by (simp_all add: rx_ms_def split: if_splits)
  then have "ms_follows ic (dropWhile digit_or_dot cs)" using match_in_group by blast
  with dd Cons show ?thesis by (simp add: number_ms_here_def digit_or_dot_def)
qed

lemma number_ms_here_first: "number_ms_here ic (c # cs) \<Longrightarrow> digit_or_dot c"
  by (simp add: number_ms_here_def)

lemma match_spaces_rx_ms:
  "match_here ic (Star (Class Whitespace) # rx_ms) s g = Some r \<Longrightarrow>
     number_ms_here ic (dropWhile is_space s)"
proof (induction s arbitrary: r)
  case Nil
  then have "match_here ic rx_ms [] g = Some r" by simp
  then have "number_ms_here ic []" by (rule match_rx_ms)
  then show ?case by simp
next
  case (Cons c cs)
  show ?case
  proof (cases "is_space c \<and> match_here ic (Star (Class Whitespace) # rx_ms) cs g \<noteq> None")
    case True
    then obtain r' where "match_here ic (Star (Class Whitespace) # rx_ms) cs g = Some r'"
      by auto
    then have "number_ms_here ic (dropWhile is_space cs)" by (rule Cons.IH)
    with True show ?thesis by simp
  next
    case False
    with Cons.prems have "match_here ic rx_ms (c # cs) g = Some r"
      by (auto split: if_splits option.splits)
    then have here: "number_ms_here ic (c # cs)" by (rule match_rx_ms)
    then have "\<not> is_space c"
      using digit_or_dot_plain number_ms_here_first by blast
    with here show ?thesis by simp
  qed
qed

lemma match_opt_spaces_rx_ms:
  assumes "match_here ic (Opt (Class Eq_or_colon) # Star (Class Whitespace) # rx_ms) s g = Some r"
  shows "number_ms_here ic (dropWhile is_space (skip_eq_or_colon s))"
proof (cases s)
  case Nil
  with assms have "match_here ic (Star (Class Whitespace) # rx_ms) [] g = Some r" by simp
  then have "number_ms_here ic (dropWhile is_space [])" by (rule match_spaces_rx_ms)
  with Nil show ?thesis by (simp add: skip_eq_or_colon_def)
next
  case (Cons c cs)
  show ?thesis
  proof (cases "c = CHR ''='' \<or> c = CHR '':''")
    case True
    show ?thesis
    proof (cases "match_here ic (Star (Class Whitespace) # rx_ms) cs g")
      case (Some r')
      then have "number_ms_here ic (dropWhile is_space cs)" by (rule match_spaces_rx_ms)
      with True Cons show ?thesis by (simp add: skip_eq_or_colon_def)
    next
      case None
      with assms Cons True
      have "match_here ic (Star (Class Whitespace) # rx_ms) (c # cs) g = Some r"
        by (auto split: if_splits option.splits)
      then have "number_ms_here ic (dropWhile is_space (c # cs))" by (rule match_spaces_rx_ms)
      with eq_or_colon_no_space [OF True] have "number_ms_here ic (c # cs)" by simp
      then have "digit_or_dot c" by (rule number_ms_here_first)
      with True digit_or_dot_plain show ?thesis by blast
    qed
  next
    case False
    with assms Cons
    have "match_here ic (Star (Class Whitespace) # rx_ms) (c # cs) g = Some r"
      by (auto split: if_splits option.splits)
    then have "number_ms_here ic (dropWhile is_space (c # cs))" by (rule match_spaces_rx_ms)
    with False Cons show ?thesis by (simp add: skip_eq_or_colon_def)
  qed
qed

lemma rx_time_unfold:
  "rx_time = [One (Lit CHR ''t''), One (Lit CHR ''i''), One (Lit CHR ''m''), One (Lit CHR ''e''),
              Opt (Class Eq_or_colon)] @ Star (Class Whitespace) # rx_ms"
  by (simp add: rx_time_def rx_ms_def)

lemma match_rx_time:
  "match_here True rx_time s g = Some r \<Longrightarrow> time_number_ms_here s"
proof -
  let ?rest = "Opt (Class Eq_or_colon) # Star (Class Whitespace) # rx_ms"
  assume "match_here True rx_time s g = Some r"
  then have "match_here True (One (Lit CHR ''t'') # One (Lit CHR ''i'') # One (Lit CHR ''m'')
               # One (Lit CHR ''e'') # ?rest) s g = Some r"
    by (simp add: rx_time_unfold)
  then obtain c1 s1 where 1: "s = c1 # s1" "atom_ok True (Lit CHR ''t'') c1"
    "match_here True (One (Lit CHR ''i'') # One (Lit CHR ''m'') # One (Lit CHR ''e'') # ?rest)
       s1 g = Some r"
    using match_one by blast
  then obtain c2 s2 where 2: "s1 = c2 # s2" "atom_ok True (Lit CHR ''i'') c2"
    "match_here True (One (Lit CHR ''m'') # One (Lit CHR ''e'') # ?rest) s2 g = Some r"
    using match_one by blast
  then obtain c3 s3 where 3: "s2 = c3 # s3" "atom_ok True (Lit CHR ''m'') c3"
    "match_here True (One (Lit CHR ''e'') # ?rest) s3 g = Some r"
    using match_one by blast
  then obtain c4 s4 where 4: "s3 = c4 # s4" "atom_ok True (Lit CHR ''e'') c4"
    "match_here True ?rest s4 g = Some r"
    using match_one by blast
  have s: "s = [c1, c2, c3, c4] @ s4"
    using 1(1) 2(1) 3(1) 4(1) by simp
  have number: "number_ms_here True (dropWhile is_space (skip_eq_or_colon s4))"
    using 4(3) by (rule match_opt_spaces_rx_ms)
  have "CHR ''t'' = lower_char CHR ''t''" "CHR ''i'' = lower_char CHR ''i''"
    "CHR ''m'' = lower_char CHR ''m''" "CHR ''e'' = lower_char CHR ''e''"
    by code_simp+
  then have "lower_char c1 = CHR ''t''" "lower_char c2 = CHR ''i''" "lower_char c3 = CHR ''m''"
    "lower_char c4 = CHR ''e''"
    using 1(2) 2(2) 3(2) 4(2) atom_ok_lit by blast+
  then have "lower (take 4 s) = ''time''" unfolding s by (simp add: lower_def)
  moreover have "drop 4 s = s4" unfolding s by simp
  ultimately show ?thesis using number by (simp add: time_number_ms_here_def)
qed

lemma re_search_rx_time: "re_search True rx_time s = Some r \<Longrightarrow> has_time_number_ms s"
proof (induction s)
  case Nil
  then have "match_here True rx_time [] [] = Some r" by simp
  then have "time_number_ms_here []" by (rule match_rx_time)
  then show ?case by (simp add: time_number_ms_here_def lower_def)
next
  case (Cons c cs)
  show ?case
  proof (cases "match_here True rx_time (c # cs) []")
    case None
    with Cons.prems have "re_search True rx_time cs = Some r" by simp
    then have "has_time_number_ms cs" by (rule Cons.IH)
    then show ?thesis by simp
  next
    case (Some r')
    then have "time_number_ms_here (c # cs)" by (rule match_rx_time)
    then show ?thesis by simp
  qed
qed

lemma number_then_ms:
  "digit_or_dot c \<Longrightarrow> ms_follows ic (dropWhile digit_or_dot p) \<Longrightarrow> has_number_ms ic (c # p)"
proof (induction p arbitrary: c)
  case Nil
  then show ?case by simp
next
  case (Cons d p)
  show ?case
  proof (cases "digit_or_dot d")
    case True
    with Cons.prems(2) have "ms_follows ic (dropWhile digit_or_dot p)" by simp
    with True have "has_number_ms ic (d # p)" by (rule Cons.IH)
    then show ?thesis by simp
  next
    case False
    with Cons.prems show ?thesis by simp
  qed
qed

lemma number_ms_here_has: "number_ms_here ic s \<Longrightarrow> has_number_ms ic s"
proof (cases s)
  case Nil
  assume "number_ms_here ic s"
  with Nil show ?thesis by (simp add: number_ms_here_def)
next
  case (Cons c cs)
  assume "number_ms_here ic s"
  with Cons have "digit_or_dot c" and "ms_follows ic (dropWhile digit_or_dot cs)"
    by (simp_all add: number_ms_here_def)
  then show ?thesis unfolding Cons by (rule number_then_ms)
qed

lemma has_number_ms_append: "has_number_ms ic s \<Longrightarrow> has_number_ms ic (pre @ s)"
  by (induction pre) simp_all

lemma has_number_ms_dropWhile: "has_number_ms ic (dropWhile P s) \<Longrightarrow> has_number_ms ic s"
  using has_number_ms_append [of ic "dropWhile P s" "takeWhile P s"] by simp

lemma has_number_ms_drop: "has_number_ms ic (drop n s) \<Longrightarrow> has_number_ms ic s"
  using has_number_ms_append [of ic "drop n s" "take n s"] by simp

lemma has_number_ms_skip: "has_number_ms ic (skip_eq_or_colon s) \<Longrightarrow> has_number_ms ic s"
  by (cases s) (simp_all add: skip_eq_or_colon_def split: if_splits)

lemma starts_with_ms_lower: "starts_with ''ms'' s \<Longrightarrow> starts_with ''ms'' (lower s)"
proof (cases s)
  case Nil
  assume "starts_with ''ms'' s"
  with Nil show ?thesis by simp
next
  case (Cons c cs)
  assume "starts_with ''ms'' s"
  with Cons show ?thesis
    using lower_char_m_s by (cases cs) (simp_all add: lower_def)
qed

lemma ms_follows_either_case: "ms_follows False s \<Longrightarrow> ms_follows True s"
  by (simp add: ms_follows_def starts_with_ms_lower)

lemma has_number_ms_either_case: "has_number_ms False s \<Longrightarrow> has_number_ms True s"
  by (induction s) (auto simp: ms_follows_either_case)

lemma time_number_ms_here_has: "time_number_ms_here s \<Longrightarrow> has_number_ms True s"
proof -
  assume "time_number_ms_here s"
  then have "number_ms_here True (dropWhile is_space (skip_eq_or_colon (drop 4 s)))"
    by (simp add: time_number_ms_here_def)
  then have "has_number_ms True (dropWhile is_space (skip_eq_or_colon (drop 4 s)))"
    by (rule number_ms_here_has)
  then have "has_number_ms True (skip_eq_or_colon (drop 4 s))"
    by (rule has_number_ms_dropWhile)
  then have "has_number_ms True (drop 4 s)" by (rule has_number_ms_skip)
  then show ?thesis by (rule has_number_ms_drop)
qed

lemma has_time_number_ms_has: "has_time_number_ms s \<Longrightarrow> has_number_ms True s"
proof (induction s)
  case Nil
  then show ?case by simp
next
  case (Cons c cs)
  show ?case
  proof (cases "time_number_ms_here (c # cs)")
    case True
    then show ?thesis by (rule time_number_ms_here_has)
  next
    case False
    with Cons.prems have "has_time_number_ms cs" by simp
    then have "has_number_ms True cs" by (rule Cons.IH)
    then show ?thesis by simp
  qed
qed

lemma re_search_rx_ms: "re_search ic rx_ms s = Some r \<Longrightarrow> has_number_ms ic s"
proof (induction s)
  case Nil
  then have "match_here ic rx_ms [] [] = Some r" by simp
  then have "number_ms_here ic []" by (rule match_rx_ms)
  then show ?case by (simp add: number_ms_here_def)
next
  case (Cons c cs)
  show ?case
  proof (cases "match_here ic rx_ms (c # cs) []")
    case None
    with Cons.prems have "re_search ic rx_ms cs = Some r" by simp
    then have "has_number_ms ic cs" by (rule Cons.IH)
    then show ?thesis by simp
  next
    case (Some r')
    then have "number_ms_here ic (c # cs)" by (rule match_rx_ms)
    then show ?thesis by (rule number_ms_here_has)
  qed
qed

lemma no_time_number_ms: "\<not> has_time_number_ms s \<Longrightarrow> re_search True rx_time s = None"
  using re_search_rx_time by (metis option.exhaust)

lemma parse_latency_none: "\<not> has_number_ms True s \<Longrightarrow> parse_latency py s = None"
proof -
  assume no: "\<not> has_number_ms True s"
  then have "\<not> has_time_number_ms s" and "\<not> has_number_ms False s"
    using has_time_number_ms_has has_number_ms_either_case by blast+
  then have "re_search True rx_time s = None" and "re_search False rx_ms s = None"
    using no_time_number_ms re_search_rx_ms by (metis option.exhaust)+
  then show ?thesis by (simp add: parse_latency_def)
qed

lemma py_float_examples:
  "py_float py ''23'' = Some (from_decimal py 23)"
  "py_float py ''12.3'' = Some (from_decimal py (123 / 10))"
  "py_float py ''42.5'' = Some (from_decimal py (85 / 2))"
  by (simp_all add: py_float_def decimal_value_def nat_of_digits_def digit_value_def
        is_digit_def)

lemma parse_latency_first:
  "re_search True rx_time s = Some g \<Longrightarrow> py_float py g = Some v \<Longrightarrow>
     parse_latency py s = Some v"
  by (simp add: parse_latency_def)

lemma parse_latency_second:
  "re_search True rx_time s = None \<Longrightarrow> re_search False rx_ms s = Some g \<Longrightarrow>
     py_float py g = Some v \<Longrightarrow> parse_latency py s = Some v"
  by (simp add: parse_latency_def)

lemma ms_before_number:
  "starts_with ''ms'' (dropWhile is_space (q @ ''42.5 ms'' @ post)) \<Longrightarrow>
     starts_with ''ms'' (dropWhile is_space q)"
proof (induction q)
  case Nil
  then show ?case by (simp add: is_space_def)
next
  case (Cons a q)
  show ?case
  proof (cases "is_space a")
    case True
    with Cons show ?thesis by simp
  next
    case False
    with Cons.prems show ?thesis by (cases q) simp_all
  qed
qed

lemma bare_search:
  "pre = [] \<or> \<not> digit_or_dot (last pre) \<Longrightarrow> \<not> has_number_ms False pre \<Longrightarrow>
     re_search False rx_ms (pre @ ''42.5 ms'' @ post) = Some ''42.5''"
proof (induction pre)
  case Nil
  show ?case by (simp add: rx_ms_def is_digit_def is_space_def)
next
  case (Cons c pre)
  have "match_here False rx_ms (c # pre @ ''42.5 ms'' @ post) [] = None"
  proof (rule ccontr)
    assume "match_here False rx_ms (c # pre @ ''42.5 ms'' @ post) [] \<noteq> None"
    then obtain r where "match_here False rx_ms (c # pre @ ''42.5 ms'' @ post) [] = Some r"
      by blast
    then have "number_ms_here False (c # pre @ ''42.5 ms'' @ post)" by (rule match_rx_ms)
    then have first: "digit_or_dot c"
      and follows: "ms_follows False (dropWhile digit_or_dot (pre @ ''42.5 ms'' @ post))"
      by (simp_all add: number_ms_here_def)
    from Cons.prems(1) have "\<not> digit_or_dot (last (c # pre))" by simp
    with first have "pre \<noteq> []" and "\<not> digit_or_dot (last pre)"
      by (auto split: if_splits)
    then have "last pre \<in> set pre" and "\<not> digit_or_dot (last pre)" by simp_all
    then have "dropWhile digit_or_dot (pre @ ''42.5 ms'' @ post) =
                 dropWhile digit_or_dot pre @ ''42.5 ms'' @ post"
      by (rule dropWhile_append1)
    with follows have "ms_follows False (dropWhile digit_or_dot pre)"
      using ms_before_number by (simp add: ms_follows_def)
    with first have "has_number_ms False (c # pre)" by (rule number_then_ms)
    with Cons.prems(2) show False by simp
  qed
  moreover have "pre = [] \<or> \<not> digit_or_dot (last pre)"
    using Cons.prems(1) by (cases "pre = []") simp_all
  moreover have "\<not> has_number_ms False pre"
    using Cons.prems(2) by simp
  ultimately show ?case using Cons.IH by simp
qed

lemma bare_latency:
  assumes "pre = [] \<or> \<not> digit_or_dot (last pre)"
    and "\<not> has_number_ms False pre"
    and "\<not> has_time_number_ms (pre @ ''42.5 ms'' @ post)"
  shows "parse_latency py (pre @ ''42.5 ms'' @ post) = Some (from_decimal py (85 / 2))"
proof -
  have "re_search True rx_time (pre @ ''42.5 ms'' @ post) = None"
    using assms(3) by (rule no_time_number_ms)
  then show ?thesis
    using bare_search [OF assms(1) assms(2)] py_float_examples(3) by (rule parse_latency_second)
qed

text \<open>
  Claim C6, as stated, fails in its third part: a text that holds a bare \<open>42.5 ms\<close> and no
  \<open>time=\<close> keyword need not parse to 42.5. The second pattern takes the first number followed
  by \<open>ms\<close>, so \<open>3ms 42.5 ms\<close> parses to 3.0; and the first pattern takes a number that follows
  the word \<open>time\<close> without any \<open>=\<close>, so \<open>42.5 ms time 7 ms\<close> parses to 7.0.
\<close>

theorem bare_latency_counterexample:
  "py_in ''42.5 ms'' ''3ms 42.5 ms'' \<and> \<not> py_in ''time'' (lower ''3ms 42.5 ms'')
   \<and> parse_latency rat_floats ''3ms 42.5 ms'' = Some 3
   \<and> py_in ''42.5 ms'' ''42.5 ms time 7 ms'' \<and> \<not> py_in ''time='' (lower ''42.5 ms time 7 ms'')
   \<and> parse_latency rat_floats ''42.5 ms time 7 ms'' = Some 7
   \<and> (3::rat) \<noteq> 85 / 2 \<and> (7::rat) \<noteq> 85 / 2"
  by code_simp

text \<open>
  Claim C6, amended. \<open>time=23ms\<close> parses to 23.0 and \<open>time=12.3 ms\<close> to 12.3, alone and inside the
  reply lines of the two ping programs. A text that holds a bare \<open>42.5 ms\<close> parses to 42.5 when
  this is the first number followed by \<open>ms\<close> in the text (no digit or dot stands right before
  it, and before it no digit or dot is followed, after any whitespace, by \<open>ms\<close> in lower case)
  and the text holds no \<open>time\<close> keyword with a latency (the word \<open>time\<close> in any case, then \<open>=\<close>
  or \<open>:\<close> or neither, then any whitespace, a run of digits and dots, any whitespace, and \<open>ms\<close>
  in any case). A text that holds no number followed by \<open>ms\<close>, in either case, parses to
  \<open>None\<close>. The floats 23.0, 12.3 and 42.5 are what the numerals of these values are read as.
\<close>

theorem parse_latency_examples:
  "parse_latency py ''time=23ms'' = Some (from_decimal py 23)
   \<and> parse_latency py ''Reply from 8.8.8.8: bytes=32 time=23ms TTL=54'' =
       Some (from_decimal py 23)
   \<and> parse_latency py ''time=12.3 ms'' = Some (from_decimal py (123 / 10))
   \<and> parse_latency py ''64 bytes from 8.8.8.8: icmp_seq=1 ttl=54 time=12.3 ms'' =
       Some (from_decimal py (123 / 10))
   \<and> ((pre = [] \<or> \<not> digit_or_dot (last pre)) \<and> \<not> has_number_ms False pre
        \<and> \<not> has_time_number_ms (pre @ ''42.5 ms'' @ post) \<longrightarrow>
      parse_latency py (pre @ ''42.5 ms'' @ post) = Some (from_decimal py (85 / 2)))
   \<and> (\<not> has_number_ms True text \<longrightarrow> parse_latency py text = None)"
proof (intro conjI impI)
  have "re_search True rx_time ''time=23ms'' = Some ''23''" by code_simp
  then show "parse_latency py ''time=23ms'' = Some (from_decimal py 23)"
    using py_float_examples(1) by (rule parse_latency_first)
  have "re_search True rx_time ''Reply from 8.8.8.8: bytes=32 time=23ms TTL=54'' = Some ''23''"
    by code_simp
  then show "parse_latency py ''Reply from 8.8.8.8: bytes=32 time=23ms TTL=54'' =
       Some (from_decimal py 23)"
    using py_float_examples(1) by (rule parse_latency_first)
  have "re_search True rx_time ''time=12.3 ms'' = Some ''12.3''" by code_simp
  then show "parse_latency py ''time=12.3 ms'' = Some (from_decimal py (123 / 10))"
    using py_float_examples(2) by (rule parse_latency_first)
  have "re_search True rx_time ''64 bytes from 8.8.8.8: icmp_seq=1 ttl=54 time=12.3 ms'' =
          Some ''12.3''"
    by code_simp
  then show "parse_latency py ''64 bytes from 8.8.8.8: icmp_seq=1 ttl=54 time=12.3 ms'' =
       Some (from_decimal py (123 / 10))"
    using py_float_examples(2) by (rule parse_latency_first)
  show "parse_latency py (pre @ ''42.5 ms'' @ post) = Some (from_decimal py (85 / 2))"
    if "(pre = [] \<or> \<not> digit_or_dot (last pre)) \<and> \<not> has_number_ms False pre
          \<and> \<not> has_time_number_ms (pre @ ''42.5 ms'' @ post)"
    using that bare_latency by blast
  show "parse_latency py text = None" if "\<not> has_number_ms True text"
    using that by (rule parse_latency_none)
qed

theorem parse_latency_examples_witness:
  "\<not> digit_or_dot (last ''round trip time was '')
   \<and> \<not> has_number_ms False ''round trip time was ''
   \<and> \<not> has_time_number_ms ''round trip time was 42.5 ms''
   \<and> parse_latency rat_floats ''round trip time was 42.5 ms'' = Some (85 / 2)
   \<and> \<not> has_number_ms True ''no time here''
   \<and> parse_latency rat_floats ''no time here'' = None"
proof -
  have 1: "\<not> digit_or_dot (last ''round trip time was '')" by code_simp
  have 2: "\<not> has_number_ms False ''round trip time was ''" by code_simp
  have 3: "\<not> has_time_number_ms (''round trip time was '' @ ''42.5 ms'' @ [])" by code_simp
  have 4: "\<not> has_number_ms True ''no time here''" by code_simp
  show ?thesis
    using parse_latency_examples [of rat_floats "''round trip time was ''" "[]" "''no time here''"]
      1 2 3 4
    by (simp add: rat_floats_def)
qed

end
